theory Spec2Isabelle
  imports Main
begin

section \<open>JavaScript string primitives used by the installer\<close>

text \<open>
  \<^verbatim>\<open>s.includes(t)\<close>: \<open>t\<close> occurs in \<open>s\<close> as a contiguous run of characters.
  The search tries every start position of \<open>s\<close> from the left.
\<close>

fun starts_with :: "string \<Rightarrow> string \<Rightarrow> bool" where
  "starts_with s [] = True"
| "starts_with [] (c # t) = False"
| "starts_with (d # s) (c # t) = (d = c \<and> starts_with s t)"

fun js_includes :: "string \<Rightarrow> string \<Rightarrow> bool" where
  "js_includes [] t = starts_with [] t"
| "js_includes (d # s) t = (starts_with (d # s) t \<or> js_includes s t)"

text \<open>
  \<^verbatim>\<open>s.split(sep)\<close> for a one-character separator: the pieces between the separators,
  in order, empty pieces included; the empty string gives one empty piece.
\<close>

fun js_split :: "char \<Rightarrow> string \<Rightarrow> string list" where
  "js_split sep [] = [[]]"
| "js_split sep (c # cs) =
     (if c = sep then [] # js_split sep cs
      else (case js_split sep cs of [] \<Rightarrow> [[c]] | x # xs \<Rightarrow> (c # x) # xs))"

text \<open>\<^verbatim>\<open>s.replace(/\./g, "")\<close>: every dot is deleted.\<close>

definition remove_dots :: "string \<Rightarrow> string" where
  "remove_dots s = filter (\<lambda>c. c \<noteq> CHR ''.'') s"

text \<open>\<^verbatim>\<open>String(b)\<close> for a boolean.\<close>

definition String_of_bool :: "bool \<Rightarrow> string" where
  "String_of_bool b = (if b then ''true'' else ''false'')"

section \<open>The Node runtime and the platform classes\<close>

text \<open>
  The host is what the Node runtime answers: \<^verbatim>\<open>os.platform()\<close>, \<^verbatim>\<open>process.env\<close>,
  and the functions \<^verbatim>\<open>path.join\<close> and \<^verbatim>\<open>path.resolve\<close>, which differ between POSIX and
  Windows hosts and are therefore parameters. \<open>locate\<close> gives the absolute location a
  path string denotes on the host, as the list of its components; the file system of the
  model is indexed by such locations.
\<close>

type_synonym loc = "string list"

record host =
  os_platform :: string
  env :: "string \<rightharpoonup> string"
  path_join :: "string list \<Rightarrow> string"
  path_resolve :: "string \<Rightarrow> string"
  locate :: "string \<Rightarrow> loc"

text \<open>
  The five platform classes of \<^verbatim>\<open>linuxplatform.ts\<close>, \<^verbatim>\<open>windowsplatform.ts\<close> and
  \<^verbatim>\<open>macosplatform.ts\<close>, each with the arguments its constructor receives.
\<close>

datatype IPlatform =
    AndroidPlatform string
  | LinuxPlatform string
  | MingwPlatform string string
  | MsvcPlatform string string
  | MacosPlatform string

text \<open>
  Modelled from the spec: the \<^verbatim>\<open>platform\<close> property of \<^verbatim>\<open>IPlatform\<close> (declared in
  \<^verbatim>\<open>platform.ts\<close>, which is not part of the source) is the requested platform key, the
  first argument of every constructor; the spec keys the local tool cache by
  (tool, version, platformKey).
\<close>

fun IPlatform_platform :: "IPlatform \<Rightarrow> string" where
  "IPlatform_platform (AndroidPlatform p) = p"
| "IPlatform_platform (LinuxPlatform p) = p"
| "IPlatform_platform (MingwPlatform p v) = p"
| "IPlatform_platform (MsvcPlatform p v) = p"
| "IPlatform_platform (MacosPlatform p) = p"

text \<open>
  What the methods of the platform classes and the script builder
  \<^verbatim>\<open>qt-installer-script-base\<close> return is not part of the source either: it is a
  parameter of the model.
\<close>

record platform_impl =
  qmakeName :: "IPlatform \<Rightarrow> string"
  makeName :: "IPlatform \<Rightarrow> string"
  testFlags :: "IPlatform \<Rightarrow> string"
  installerName :: "IPlatform \<Rightarrow> string"
  installPlatform :: "IPlatform \<Rightarrow> string"
  extraPackages :: "IPlatform \<Rightarrow> string list option"
  setupInstallDir :: "IPlatform \<Rightarrow> string \<times> string"
  qtScript_generateScript :: "string \<Rightarrow> string list \<Rightarrow> string"

datatype error = Throw string

record Installer =
  version :: string
  platform :: IPlatform
  tempDir :: string

section \<open>Construction\<close>

text \<open>\<^verbatim>\<open>process.env[name] || dflt\<close>: an unset and an empty variable both give the default.\<close>

definition env_or :: "host \<Rightarrow> string \<Rightarrow> string \<Rightarrow> string" where
  "env_or h name dflt =
     (case env h name of None \<Rightarrow> dflt | Some v \<Rightarrow> if v = [] then dflt else v)"

definition initTempDir :: "host \<Rightarrow> string \<Rightarrow> string" where
  "initTempDir h platform_arg =
     (let tempDirectory = env_or h ''RUNNER_TEMP'' ''''
      in if tempDirectory = [] then
           (let baseLocation =
                  (if platform_arg = ''win32'' then env_or h ''USERPROFILE'' [CHR ''C'', CHR '':'', CHR 0x5C]
                   else if platform_arg = ''darwin'' then ''/Users''
                   else ''/home'')
            in path_join h [baseLocation, ''actions'', ''temp''])
         else tempDirectory)"

definition new_Installer :: "host \<Rightarrow> string \<Rightarrow> string \<Rightarrow> error + Installer" where
  "new_Installer h version_arg platform_arg =
     (let tmp = initTempDir h platform_arg in
      if os_platform h = ''linux'' then
        (if js_includes platform_arg ''android''
         then Inr \<lparr>version = version_arg, platform = AndroidPlatform platform_arg, tempDir = tmp\<rparr>
         else Inr \<lparr>version = version_arg, platform = LinuxPlatform platform_arg, tempDir = tmp\<rparr>)
      else if os_platform h = ''win32'' then
        (if js_includes platform_arg ''mingw''
         then Inr \<lparr>version = version_arg, platform = MingwPlatform platform_arg version_arg, tempDir = tmp\<rparr>
         else Inr \<lparr>version = version_arg, platform = MsvcPlatform platform_arg version_arg, tempDir = tmp\<rparr>)
      else if os_platform h = ''darwin'' then
        Inr \<lparr>version = version_arg, platform = MacosPlatform platform_arg, tempDir = tmp\<rparr>
      else
        Inl (Throw (''Install platform '' @ os_platform h @ '' is not supported by this action'')))"

section \<open>Script generation and the test policy\<close>

text \<open>
  \<^verbatim>\<open>generateScript\<close> first builds the module list: the base module, then one module
  pushed for each entry of \<^verbatim>\<open>packages.split(",")\<close>, then the extra packages of the
  platform if there are any. The list and the install path go to the script builder.
\<close>

definition qtVer :: "Installer \<Rightarrow> string" where
  "qtVer inst = remove_dots (version inst)"

definition module_id :: "Installer \<Rightarrow> string \<Rightarrow> string" where
  "module_id inst suffix = ''qt.qt5.'' @ qtVer inst @ ''.'' @ suffix"

fun push_entries :: "Installer \<Rightarrow> string list \<Rightarrow> string list \<Rightarrow> string list" where
  "push_entries inst modules [] = modules"
| "push_entries inst modules (entry # entries) =
     push_entries inst (modules @ [module_id inst entry]) entries"

definition generateScript_modules :: "platform_impl \<Rightarrow> Installer \<Rightarrow> string \<Rightarrow> string list" where
  "generateScript_modules pf inst packages =
     (let modules = [module_id inst (installPlatform pf (platform inst))];
          modules = push_entries inst modules (js_split CHR '','' packages)
      in case extraPackages pf (platform inst) of
           None \<Rightarrow> modules
         | Some extraPkgs \<Rightarrow> modules @ extraPkgs)"

definition generateScript :: "platform_impl \<Rightarrow> Installer \<Rightarrow> string \<Rightarrow> string \<Rightarrow> string" where
  "generateScript pf inst path packages =
     qtScript_generateScript pf path (generateScript_modules pf inst packages)"

definition shouldTest :: "Installer \<Rightarrow> bool" where
  "shouldTest inst =
     (let p = IPlatform_platform (platform inst)
      in if js_includes p ''android'' \<or> js_includes p ''wasm'' \<or>
            js_includes p ''winrt'' \<or> js_includes p ''ios''
         then False else True)"

text \<open>
  The version fragment as the specification words it: the major component followed by
  the minor component, without the dot between them.
\<close>

definition spec_version_fragment :: "string \<Rightarrow> string" where
  "spec_version_fragment v = concat (take 2 (js_split CHR ''.'' v))"

section \<open>The world outside the installer\<close>

text \<open>
  The file system is a list of entries, each a location with its kind. The operations
  below are what the collaborators do to it: \<^verbatim>\<open>fs.mkdir\<close> and \<^verbatim>\<open>fs.writeFile\<close> add an
  entry, \<^verbatim>\<open>rimraf\<close> removes a tree, \<^verbatim>\<open>io.mkdirP\<close> adds a directory with its missing
  ancestors, and \<^verbatim>\<open>io.mv\<close> renames a tree: into the destination when that is an existing
  directory, and in place of the destination otherwise.
\<close>

datatype kind = File | Dir | Link

type_synonym files = "(loc \<times> kind) list"

definition exists_at :: "files \<Rightarrow> loc \<Rightarrow> bool" where
  "exists_at f l = (map_of f l \<noteq> None)"

fun below :: "loc \<Rightarrow> loc \<Rightarrow> loc option" where
  "below [] l = Some l"
| "below (a # d) [] = None"
| "below (a # d) (b # l) = (if a = b then below d l else None)"

definition add_entry :: "loc \<Rightarrow> kind \<Rightarrow> files \<Rightarrow> files" where
  "add_entry l k f = (l, k) # filter (\<lambda>e. fst e \<noteq> l) f"

fun add_entries :: "files \<Rightarrow> files \<Rightarrow> files" where
  "add_entries [] f = f"
| "add_entries ((l, k) # es) f = add_entries es (add_entry l k f)"

definition remove_tree :: "loc \<Rightarrow> files \<Rightarrow> files" where
  "remove_tree d f = filter (\<lambda>e. below d (fst e) = None) f"

definition rename_tree :: "loc \<Rightarrow> loc \<Rightarrow> files \<Rightarrow> files" where
  "rename_tree src dst f =
     map (\<lambda>e. case below src (fst e) of None \<Rightarrow> e | Some r \<Rightarrow> (dst @ r, snd e)) f"

fun make_dirs_from :: "loc \<Rightarrow> loc \<Rightarrow> files \<Rightarrow> files" where
  "make_dirs_from pre [] f = f"
| "make_dirs_from pre (s # ss) f =
     make_dirs_from (pre @ [s]) ss
       (if exists_at f (pre @ [s]) then f else add_entry (pre @ [s]) Dir f)"

definition make_dirs :: "loc \<Rightarrow> files \<Rightarrow> files" where
  "make_dirs d f = make_dirs_from [] d f"

definition mv_files :: "loc \<Rightarrow> loc \<Rightarrow> files \<Rightarrow> files" where
  "mv_files src dst f =
     (let target = (if map_of f dst = Some Dir
                    then (case rev src of [] \<Rightarrow> dst | b # _ \<Rightarrow> dst @ [b])
                    else dst);
          f = (if exists_at f target then remove_tree target f else f);
          f = make_dirs (butlast target) f
      in rename_tree src target f)"

text \<open>
  Every call of a collaborator that can throw is an event. The trace of a run is the
  list of the calls it made, in order, the failing one included.
\<close>

datatype event =
    Which string
  | Exec string "string list"
  | TcFind string string string
  | RunPreInstaller bool
  | DownloadTool string
  | FsMkdir string
  | FsWriteFile string string
  | RunInstaller string "string list" string
  | IoMv string string
  | TcCacheDir string string string string
  | Rimraf string
  | AddExtraEnvVars string
  | RunPostInstaller
  | SetupInstallDir
  | IoMkdirP string
  | FsSymlink string string

text \<open>
  The world is what persists outside the installer object: the file system, the entries
  of the local tool cache (the stored path for a tool, a version and an architecture),
  the published outputs, the additions to PATH, and the trace.
\<close>

type_synonym tool_entries = "((string \<times> string \<times> string) \<times> string) list"

record world =
  fs :: files
  toolcache :: tool_entries
  outputs :: "(string \<times> string) list"
  paths :: "string list"
  trace :: "event list"

text \<open>
  What the collaborators answer in a run is an input of the model: which calls throw
  (and what), the paths that \<^verbatim>\<open>io.which\<close> and \<^verbatim>\<open>tc.downloadTool\<close> return, the entries
  the vendor installer creates for an installation root, and the tool cache of the
  runner. The code of the tool cache is not part of this repository, and how it matches
  a version is its own affair (it resolves a version that is not exact as a range over
  the versions it holds): \<open>tc_lookup\<close> is the path it finds among its entries for a
  tool, a version and an architecture, the empty string when it finds none, and
  \<open>tc_store\<close> is the path under which it stores a tree, with the entries it then holds.
\<close>

record collab =
  fails :: "event \<Rightarrow> error option"
  which_path :: "string \<Rightarrow> string"
  download_path :: "string \<Rightarrow> string"
  installed :: "string \<Rightarrow> files"
  tc_lookup :: "tool_entries \<Rightarrow> string \<Rightarrow> string \<Rightarrow> string \<Rightarrow> string"
  tc_store :: "tool_entries \<Rightarrow> string \<Rightarrow> string \<Rightarrow> string \<Rightarrow> string \<Rightarrow> string \<times> tool_entries"

text \<open>
  A step takes the world and gives a result or the thrown error, with the world it
  leaves. \<open>await\<close> runs a step and passes its result on; an error ends the sequence with
  the world as it is at that moment.
\<close>

type_synonym 'a step = "world \<Rightarrow> (error + 'a) \<times> world"

definition return :: "'a \<Rightarrow> 'a step" where
  "return a w = (Inr a, w)"

definition await :: "'a step \<Rightarrow> ('a \<Rightarrow> 'b step) \<Rightarrow> 'b step" where
  "await m f w = (case m w of (Inl e, w') \<Rightarrow> (Inl e, w') | (Inr a, w') \<Rightarrow> f a w')"

definition modify :: "(world \<Rightarrow> world) \<Rightarrow> unit step" where
  "modify g w = (Inr (), g w)"

definition gets :: "(world \<Rightarrow> 'a) \<Rightarrow> 'a step" where
  "gets g w = (Inr (g w), w)"

definition call :: "collab \<Rightarrow> event \<Rightarrow> unit step" where
  "call c ev w =
     (case fails c ev of
        Some e \<Rightarrow> (Inl e, w\<lparr>trace := trace w @ [ev]\<rparr>)
      | None \<Rightarrow> (Inr (), w\<lparr>trace := trace w @ [ev]\<rparr>))"

subsection \<open>The collaborators\<close>

text \<open>
  A call of a collaborator is its event, which throws or not as the answers of the run
  say, followed by its effect on the world when it does not throw. Whether a call
  throws is never derived from the file system of the model. The local tool cache has
  entries of its own beside the file system. \<^verbatim>\<open>fssync.existsSync\<close> never throws and only
  reads: it is no event.
\<close>

definition io_which :: "collab \<Rightarrow> string \<Rightarrow> string step" where
  "io_which c tool = await (call c (Which tool)) (\<lambda>_. return (which_path c tool))"

definition ex_exec :: "collab \<Rightarrow> string \<Rightarrow> string list \<Rightarrow> unit step" where
  "ex_exec c cmd args = call c (Exec cmd args)"

definition fssync_existsSync :: "host \<Rightarrow> string \<Rightarrow> world \<Rightarrow> bool" where
  "fssync_existsSync h p w = exists_at (fs w) (locate h p)"

text \<open>
  \<^verbatim>\<open>tc.find\<close> returns what the tool cache finds among its entries; \<^verbatim>\<open>tc.cacheDir\<close> returns
  the path under which the tool cache stores the tree and leaves the entries of the
  tool cache as the store gives them.
\<close>

definition tc_find :: "collab \<Rightarrow> string \<Rightarrow> string \<Rightarrow> string \<Rightarrow> string step" where
  "tc_find c tool ver arch =
     await (call c (TcFind tool ver arch))
       (\<lambda>_. gets (\<lambda>w. tc_lookup c (toolcache w) tool ver arch))"

definition tc_cacheDir :: "collab \<Rightarrow> string \<Rightarrow> string \<Rightarrow> string \<Rightarrow> string \<Rightarrow> string step" where
  "tc_cacheDir c src tool ver arch =
     await (call c (TcCacheDir src tool ver arch))
       (\<lambda>_. await (gets (\<lambda>w. tc_store c (toolcache w) src tool ver arch))
         (\<lambda>stored. await (modify (\<lambda>w. w\<lparr>toolcache := snd stored\<rparr>))
           (\<lambda>_. return (fst stored))))"

definition tc_downloadTool :: "collab \<Rightarrow> string \<Rightarrow> string step" where
  "tc_downloadTool c url = await (call c (DownloadTool url)) (\<lambda>_. return (download_path c url))"

definition fs_mkdir :: "collab \<Rightarrow> host \<Rightarrow> string \<Rightarrow> unit step" where
  "fs_mkdir c h p =
     await (call c (FsMkdir p))
       (\<lambda>_. modify (\<lambda>w. w\<lparr>fs := add_entry (locate h p) Dir (fs w)\<rparr>))"

definition fs_writeFile :: "collab \<Rightarrow> host \<Rightarrow> string \<Rightarrow> string \<Rightarrow> unit step" where
  "fs_writeFile c h p text =
     await (call c (FsWriteFile p text))
       (\<lambda>_. modify (\<lambda>w. w\<lparr>fs := add_entry (locate h p) File (fs w)\<rparr>))"

definition fs_symlink :: "collab \<Rightarrow> host \<Rightarrow> string \<Rightarrow> string \<Rightarrow> unit step" where
  "fs_symlink c h target p =
     await (call c (FsSymlink target p))
       (\<lambda>_. modify (\<lambda>w. w\<lparr>fs := add_entry (locate h p) Link (fs w)\<rparr>))"

definition io_mkdirP :: "collab \<Rightarrow> host \<Rightarrow> string \<Rightarrow> unit step" where
  "io_mkdirP c h p =
     await (call c (IoMkdirP p))
       (\<lambda>_. modify (\<lambda>w. w\<lparr>fs := make_dirs (locate h p) (fs w)\<rparr>))"

definition io_mv :: "collab \<Rightarrow> host \<Rightarrow> string \<Rightarrow> string \<Rightarrow> unit step" where
  "io_mv c h src dst =
     await (call c (IoMv src dst))
       (\<lambda>_. modify (\<lambda>w. w\<lparr>fs := mv_files (locate h src) (locate h dst) (fs w)\<rparr>))"

definition rimraf_sync :: "collab \<Rightarrow> host \<Rightarrow> string \<Rightarrow> unit step" where
  "rimraf_sync c h p =
     await (call c (Rimraf p))
       (\<lambda>_. modify (\<lambda>w. w\<lparr>fs := remove_tree (locate h p) (fs w)\<rparr>))"

definition core_setOutput :: "string \<Rightarrow> string \<Rightarrow> unit step" where
  "core_setOutput name val = modify (\<lambda>w. w\<lparr>outputs := outputs w @ [(name, val)]\<rparr>)"

definition core_addPath :: "string \<Rightarrow> unit step" where
  "core_addPath p = modify (\<lambda>w. w\<lparr>paths := p # paths w\<rparr>)"

subsection \<open>The hooks of the platform classes\<close>

text \<open>
  What the hooks, and the processes that \<^verbatim>\<open>ex.exec\<close> starts, do to the world is not in
  the source: the model records their calls. The vendor installer adds the entries that
  the answers of the run name for its installation root.
\<close>

definition runPreInstaller :: "collab \<Rightarrow> bool \<Rightarrow> unit step" where
  "runPreInstaller c cached = call c (RunPreInstaller cached)"

definition runPostInstaller :: "collab \<Rightarrow> unit step" where
  "runPostInstaller c = call c RunPostInstaller"

definition addExtraEnvVars :: "collab \<Rightarrow> string \<Rightarrow> unit step" where
  "addExtraEnvVars c toolPath = call c (AddExtraEnvVars toolPath)"

definition runInstaller :: "collab \<Rightarrow> string \<Rightarrow> string list \<Rightarrow> string \<Rightarrow> unit step" where
  "runInstaller c tool args instPath =
     await (call c (RunInstaller tool args instPath))
       (\<lambda>_. modify (\<lambda>w. w\<lparr>fs := add_entries (installed c instPath) (fs w)\<rparr>))"

definition run_setupInstallDir :: "platform_impl \<Rightarrow> collab \<Rightarrow> IPlatform \<Rightarrow> (string \<times> string) step" where
  "run_setupInstallDir pf c p = await (call c SetupInstallDir) (\<lambda>_. return (setupInstallDir pf p))"

section \<open>The installer\<close>

definition acquireQt ::
  "host \<Rightarrow> platform_impl \<Rightarrow> collab \<Rightarrow> Installer \<Rightarrow> string \<Rightarrow> string \<Rightarrow> string \<Rightarrow> string step" where
  "acquireQt h pf c inst packages iArgs cachedir =
     await (tc_downloadTool c
              (''https://download.qt.io/official_releases/online_installers/''
                 @ installerName pf (platform inst)))
     (\<lambda>downloadPath.
     let installPath = path_join h [tempDir inst, ''qt''];
         scriptPath = path_join h [tempDir inst, ''qt-installer-script.qs''] in
     await (fs_mkdir c h (path_join h [tempDir inst, ''home''])) (\<lambda>_.
     await (fs_writeFile c h scriptPath (generateScript pf inst installPath packages)) (\<lambda>_.
     await (runInstaller c downloadPath
              ([''--script'', scriptPath] @ js_split CHR '' '' iArgs) installPath) (\<lambda>_.
     let qmakePath = path_join h [installPath, version inst, IPlatform_platform (platform inst),
                                  ''bin'', qmakeName pf (platform inst)] in
     await (io_which c ''qdep'') (\<lambda>qdepPath.
     await (ex_exec c qdepPath [''prfgen'', ''--qmake'', qmakePath]) (\<lambda>_.
     await (if cachedir \<noteq> [] then
              await (io_mv c h (path_join h [installPath, version inst,
                                             IPlatform_platform (platform inst)]) cachedir)
                (\<lambda>_. return (path_resolve h cachedir))
            else
              tc_cacheDir c (path_join h [installPath, version inst,
                                          IPlatform_platform (platform inst)])
                ''qt'' (version inst) (IPlatform_platform (platform inst))) (\<lambda>resDir.
     await (rimraf_sync c h installPath) (\<lambda>_.
     return resDir))))))))"

text \<open>
  The calls of \<^verbatim>\<open>core.debug\<close> and \<^verbatim>\<open>core.info\<close> only write to the log and are left out.
  \<^verbatim>\<open>getQt\<close> is given in the blocks its comments name. \<open>installQdep\<close> is the block "install qdep",
  \<open>checkCaches\<close> the block "check caches for Qt installation"; its result is the
  variable \<^verbatim>\<open>toolPath\<close>, which \<^verbatim>\<open>!toolPath\<close> tests: null and the empty string are a miss.
  \<open>publishQt\<close> is everything from "update output / env vars" on.
\<close>

definition installQdep :: "collab \<Rightarrow> unit step" where
  "installQdep c =
     await (io_which c ''python'') (\<lambda>pythonPath.
     ex_exec c pythonPath [''-m'', ''pip'', ''install'', ''qdep''])"

definition checkCaches ::
  "host \<Rightarrow> platform_impl \<Rightarrow> collab \<Rightarrow> Installer \<Rightarrow> string \<Rightarrow> string option step" where
  "checkCaches h pf c inst cachedir =
     (if cachedir \<noteq> [] then
        await (gets (fssync_existsSync h
                       (path_join h [cachedir, ''bin'', qmakeName pf (platform inst)])))
          (\<lambda>found. if found then return (Some (path_resolve h cachedir)) else return None)
      else
        await (tc_find c ''qt'' (version inst) (IPlatform_platform (platform inst)))
          (\<lambda>p. return (Some p)))"

definition is_miss :: "string option \<Rightarrow> bool" where
  "is_miss toolPath = (case toolPath of None \<Rightarrow> True | Some p \<Rightarrow> p = [])"

definition publishQt :: "host \<Rightarrow> platform_impl \<Rightarrow> collab \<Rightarrow> Installer \<Rightarrow> string \<Rightarrow> unit step" where
  "publishQt h pf c inst toolPath =
     await (core_setOutput ''qtdir'' toolPath) (\<lambda>_.
     await (core_addPath (path_join h [toolPath, ''bin''])) (\<lambda>_.
     await (addExtraEnvVars c toolPath) (\<lambda>_.
     await (runPostInstaller c) (\<lambda>_.
     await (ex_exec c ''qmake'' [''-version'']) (\<lambda>_.
     await (ex_exec c ''qmake'' [''-query'']) (\<lambda>_.
     await (core_setOutput ''make'' (makeName pf (platform inst))) (\<lambda>_.
     await (core_setOutput ''tests'' (String_of_bool (shouldTest inst))) (\<lambda>_.
     await (core_setOutput ''testflags'' (testFlags pf (platform inst))) (\<lambda>_.
     await (run_setupInstallDir pf c (platform inst)) (\<lambda>iPath.
     await (io_mkdirP c h (fst iPath)) (\<lambda>_.
     await (fs_symlink c h
              (path_join h [fst iPath,
                            if os_platform h = ''win32'' then drop 3 toolPath else drop 1 toolPath,
                            ''..''])
              ''install_link'') (\<lambda>_.
     core_setOutput ''installdir'' (snd iPath)))))))))))))"

definition getQt ::
  "host \<Rightarrow> platform_impl \<Rightarrow> collab \<Rightarrow> Installer \<Rightarrow> string \<Rightarrow> string \<Rightarrow> string \<Rightarrow> unit step" where
  "getQt h pf c inst packages iArgs cachedir =
     await (installQdep c) (\<lambda>_.
     await (checkCaches h pf c inst cachedir) (\<lambda>toolPath.
     await (case toolPath of
              None \<Rightarrow>
                await (runPreInstaller c False) (\<lambda>_.
                acquireQt h pf c inst packages iArgs cachedir)
            | Some p \<Rightarrow>
                if p = [] then
                  await (runPreInstaller c False) (\<lambda>_.
                  acquireQt h pf c inst packages iArgs cachedir)
                else
                  await (runPreInstaller c True) (\<lambda>_.
                  return p)) (\<lambda>toolPath.
     publishQt h pf c inst toolPath)))"

text \<open>
  A later run is a new process on the same machine: the file system and the tool cache
  are as the earlier run left them, and nothing is published or called yet.
\<close>

definition next_run :: "world \<Rightarrow> world" where
  "next_run w = w\<lparr>outputs := [], paths := [], trace := []\<rparr>"

section \<open>Vocabulary of the properties\<close>

text \<open>
  What the tool cache finds for the request of an installer in a world, and what it
  returns and holds when it stores the installed tree of that request there.
\<close>

definition tc_found :: "collab \<Rightarrow> Installer \<Rightarrow> world \<Rightarrow> string" where
  "tc_found c inst w =
     tc_lookup c (toolcache w) ''qt'' (version inst) (IPlatform_platform (platform inst))"

definition tc_stored :: "host \<Rightarrow> collab \<Rightarrow> Installer \<Rightarrow> world \<Rightarrow> string \<times> tool_entries" where
  "tc_stored h c inst w =
     tc_store c (toolcache w)
       (path_join h [path_join h [tempDir inst, ''qt''], version inst,
                     IPlatform_platform (platform inst)])
       ''qt'' (version inst) (IPlatform_platform (platform inst))"

text \<open>
  The cache holds a usable installation for a request when the lookup of \<^verbatim>\<open>getQt\<close> finds
  a non-empty path: with a shared cache directory, the build tool is at
  \<open>bin/<qmakeName>\<close> inside it; without one, the local tool cache finds a path for
  \<open>qt\<close>, the version and the platform key.
\<close>

definition cache_hit ::
  "host \<Rightarrow> platform_impl \<Rightarrow> collab \<Rightarrow> Installer \<Rightarrow> string \<Rightarrow> world \<Rightarrow> bool" where
  "cache_hit h pf c inst cachedir w =
     (if cachedir \<noteq> [] then
        fssync_existsSync h (path_join h [cachedir, ''bin'', qmakeName pf (platform inst)]) w
          \<and> path_resolve h cachedir \<noteq> []
      else tc_found c inst w \<noteq> [])"

text \<open>
  The pre-install hook, the calls only the acquisition makes (of the calls of
  \<^verbatim>\<open>io.which\<close> and \<^verbatim>\<open>ex.exec\<close>, those for qdep's \<open>prfgen\<close>), and the two cache writes.
\<close>

fun is_hook :: "event \<Rightarrow> bool" where
  "is_hook (RunPreInstaller b) = True"
| "is_hook ev = False"

fun is_acquisition :: "event \<Rightarrow> bool" where
  "is_acquisition (DownloadTool url) = True"
| "is_acquisition (FsMkdir p) = True"
| "is_acquisition (FsWriteFile p text) = True"
| "is_acquisition (RunInstaller tool args p) = True"
| "is_acquisition (Which tool) = (tool = ''qdep'')"
| "is_acquisition (Exec cmd args) = (case args of [] \<Rightarrow> False | a # _ \<Rightarrow> a = ''prfgen'')"
| "is_acquisition (IoMv src dst) = True"
| "is_acquisition (TcCacheDir src tool ver arch) = True"
| "is_acquisition (Rimraf p) = True"
| "is_acquisition ev = False"

fun is_cache_write :: "event \<Rightarrow> bool" where
  "is_cache_write (IoMv src dst) = True"
| "is_cache_write (TcCacheDir src tool ver arch) = True"
| "is_cache_write ev = False"

text \<open>The calls to the local tool cache of the runner.\<close>

fun is_toolcache_call :: "event \<Rightarrow> bool" where
  "is_toolcache_call (TcFind tool ver arch) = True"
| "is_toolcache_call (TcCacheDir src tool ver arch) = True"
| "is_toolcache_call ev = False"

text \<open>
  The calls of \<^verbatim>\<open>acquireQt\<close> before anything goes to a cache: the download, the home
  directory, the script, the installer, and the two calls that prepare qdep.
\<close>

definition acquire_steps ::
  "host \<Rightarrow> platform_impl \<Rightarrow> collab \<Rightarrow> Installer \<Rightarrow> string \<Rightarrow> string \<Rightarrow> event list" where
  "acquire_steps h pf c inst packages iArgs =
     (let url = ''https://download.qt.io/official_releases/online_installers/''
                  @ installerName pf (platform inst);
          installPath = path_join h [tempDir inst, ''qt''];
          scriptPath = path_join h [tempDir inst, ''qt-installer-script.qs'']
      in [DownloadTool url,
          FsMkdir (path_join h [tempDir inst, ''home'']),
          FsWriteFile scriptPath (generateScript pf inst installPath packages),
          RunInstaller (download_path c url)
            ([''--script'', scriptPath] @ js_split CHR '' '' iArgs) installPath,
          Which ''qdep'',
          Exec (which_path c ''qdep'')
            [''prfgen'', ''--qmake'',
             path_join h [installPath, version inst, IPlatform_platform (platform inst),
                          ''bin'', qmakeName pf (platform inst)]]])"

text \<open>
  When calls are attempted in order, the ones performed are those up to and including
  the first that throws, and the error of the sequence is the error of that call.
\<close>

fun performed :: "collab \<Rightarrow> event list \<Rightarrow> event list" where
  "performed c [] = []"
| "performed c (ev # evs) = ev # (case fails c ev of None \<Rightarrow> performed c evs | Some e \<Rightarrow> [])"

fun first_failure :: "collab \<Rightarrow> event list \<Rightarrow> error option" where
  "first_failure c [] = None"
| "first_failure c (ev # evs) = (case fails c ev of None \<Rightarrow> first_failure c evs | Some e \<Rightarrow> Some e)"

text \<open>The calls of the other blocks of \<^verbatim>\<open>getQt\<close>, in the order of the source.\<close>

definition installQdep_steps :: "collab \<Rightarrow> event list" where
  "installQdep_steps c =
     [Which ''python'', Exec (which_path c ''python'') [''-m'', ''pip'', ''install'', ''qdep'']]"

definition lookup_steps :: "Installer \<Rightarrow> string \<Rightarrow> event list" where
  "lookup_steps inst cachedir =
     (if cachedir \<noteq> [] then []
      else [TcFind ''qt'' (version inst) (IPlatform_platform (platform inst))])"

definition store_step :: "host \<Rightarrow> Installer \<Rightarrow> string \<Rightarrow> event" where
  "store_step h inst cachedir =
     (let src = path_join h [path_join h [tempDir inst, ''qt''], version inst,
                             IPlatform_platform (platform inst)]
      in if cachedir \<noteq> [] then IoMv src cachedir
         else TcCacheDir src ''qt'' (version inst) (IPlatform_platform (platform inst)))"

definition acquire_plan ::
  "host \<Rightarrow> platform_impl \<Rightarrow> collab \<Rightarrow> Installer \<Rightarrow> string \<Rightarrow> string \<Rightarrow> string \<Rightarrow> event list" where
  "acquire_plan h pf c inst packages iArgs cachedir =
     acquire_steps h pf c inst packages iArgs
       @ [store_step h inst cachedir, Rimraf (path_join h [tempDir inst, ''qt''])]"

definition publish_steps :: "host \<Rightarrow> platform_impl \<Rightarrow> string \<Rightarrow> event list" where
  "publish_steps h pf toolPath =
     [AddExtraEnvVars toolPath, RunPostInstaller,
      Exec ''qmake'' [''-version''], Exec ''qmake'' [''-query'']]"

definition link_steps :: "host \<Rightarrow> platform_impl \<Rightarrow> Installer \<Rightarrow> string \<Rightarrow> event list" where
  "link_steps h pf inst toolPath =
     [SetupInstallDir,
      IoMkdirP (fst (setupInstallDir pf (platform inst))),
      FsSymlink
        (path_join h [fst (setupInstallDir pf (platform inst)),
                      if os_platform h = ''win32'' then drop 3 toolPath else drop 1 toolPath,
                      ''..''])
        ''install_link'']"

text \<open>
  The tool root a run publishes: the resolved shared cache directory, or the path the
  local tool cache finds or, after an acquisition, stores under.
\<close>

definition toolRoot :: "host \<Rightarrow> collab \<Rightarrow> Installer \<Rightarrow> string \<Rightarrow> world \<Rightarrow> string" where
  "toolRoot h c inst cachedir w =
     (if cachedir \<noteq> [] then path_resolve h cachedir
      else if tc_found c inst w = [] then fst (tc_stored h c inst w)
      else tc_found c inst w)"

text \<open>The file system that \<^verbatim>\<open>acquireQt\<close> and the publishing block leave.\<close>

definition acquire_fs ::
  "host \<Rightarrow> platform_impl \<Rightarrow> collab \<Rightarrow> Installer \<Rightarrow> string \<Rightarrow> string \<Rightarrow> string \<Rightarrow> world \<Rightarrow> files" where
  "acquire_fs h pf c inst packages iArgs cachedir w =
     fs (snd (acquireQt h pf c inst packages iArgs cachedir w))"

definition publish_fs ::
  "host \<Rightarrow> platform_impl \<Rightarrow> collab \<Rightarrow> Installer \<Rightarrow> string \<Rightarrow> world \<Rightarrow> files" where
  "publish_fs h pf c inst toolPath w = fs (snd (publishQt h pf c inst toolPath w))"

text \<open>
  The first half of \<^verbatim>\<open>getQt\<close>, up to the point where \<^verbatim>\<open>toolPath\<close> is settled, and the
  value the cache lookup gives. \<^verbatim>\<open>getQt\<close> is this half followed by the publishing block.
\<close>

definition decideQt ::
  "host \<Rightarrow> platform_impl \<Rightarrow> collab \<Rightarrow> Installer \<Rightarrow> string \<Rightarrow> string \<Rightarrow> string \<Rightarrow> string step" where
  "decideQt h pf c inst packages iArgs cachedir =
     await (installQdep c) (\<lambda>_.
     await (checkCaches h pf c inst cachedir) (\<lambda>toolPath.
       case toolPath of
         None \<Rightarrow>
           await (runPreInstaller c False) (\<lambda>_.
           acquireQt h pf c inst packages iArgs cachedir)
       | Some p \<Rightarrow>
           if p = [] then
             await (runPreInstaller c False) (\<lambda>_.
             acquireQt h pf c inst packages iArgs cachedir)
           else
             await (runPreInstaller c True) (\<lambda>_.
             return p)))"

definition lookup_value ::
  "host \<Rightarrow> platform_impl \<Rightarrow> collab \<Rightarrow> Installer \<Rightarrow> string \<Rightarrow> world \<Rightarrow> string option" where
  "lookup_value h pf c inst cachedir w =
     (if cachedir \<noteq> [] then
        (if fssync_existsSync h (path_join h [cachedir, ''bin'', qmakeName pf (platform inst)]) w
         then Some (path_resolve h cachedir) else None)
      else Some (tc_found c inst w))"

text \<open>
  A step keeps the files when every location that exists before it exists after it.
  The layout of an installation and a fresh shared cache directory are the conditions
  under which the move into the shared cache directory is looked up again: the vendor
  installer leaves the build tool at <root>/<version>/<platform>/bin/<qmakeName>, the
  host reads \<open>bin/<qmakeName>\<close> below a directory as two more components, the shared
  cache directory resolves to a non-empty path, nothing exists at or below it before the
  run and the run does not create it, and it does not lie inside the temporary
  installation root that the run removes.
\<close>

definition keeps_files :: "'a step \<Rightarrow> bool" where
  "keeps_files m = (\<forall>w l. exists_at (fs w) l \<longrightarrow> exists_at (fs (snd (m w))) l)"




section \<open>Sample parameters\<close>

text \<open>
  A host for evaluating the model on concrete inputs: \<open>sample_join\<close> puts a slash
  between the non-empty arguments, as \<^verbatim>\<open>path.join\<close> does on a POSIX host for arguments
  that are already normalised; \<open>sample_locate\<close> reads the components off a path.
\<close>

fun sample_join :: "string list \<Rightarrow> string" where
  "sample_join [] = ''.''"
| "sample_join [a] = a"
| "sample_join (a # b # bs) =
     (if a = [] then sample_join (b # bs) else a @ ''/'' @ sample_join (b # bs))"

definition sample_locate :: "string \<Rightarrow> loc" where
  "sample_locate p = filter (\<lambda>s. s \<noteq> []) (js_split CHR ''/'' p)"

definition sample_host :: "string \<Rightarrow> (string \<rightharpoonup> string) \<Rightarrow> host" where
  "sample_host os e =
     \<lparr>os_platform = os, env = e, path_join = sample_join,
      path_resolve = (\<lambda>p. p), locate = sample_locate\<rparr>"

text \<open>Platform classes that answer like the desktop Linux platform of Qt 5.\<close>

definition sample_impl :: platform_impl where
  "sample_impl =
     \<lparr>qmakeName = (\<lambda>_. ''qmake''), makeName = (\<lambda>_. ''make''), testFlags = (\<lambda>_. ''''),
      installerName = (\<lambda>_. ''qt-unified-linux-x64-online.run''),
      installPlatform = (\<lambda>_. ''gcc_64''), extraPackages = (\<lambda>_. None),
      setupInstallDir = (\<lambda>_. (''/opt/install'', ''/opt/install/qt'')),
      qtScript_generateScript = (\<lambda>p ms. concat ms)\<rparr>"

definition sample_installer :: "string \<Rightarrow> Installer" where
  "sample_installer v = \<lparr>version = v, platform = LinuxPlatform ''linux-gcc_64'', tempDir = ''/tmp''\<rparr>"

text \<open>
  A tool cache for the sample runs. It stores a tree under the version as it is given.
  A lookup for an exact version, three components of digits, returns what is stored
  under exactly that tool, version and architecture. A lookup for any other version
  takes it as a range: it returns an entry of the tool and the architecture whose
  version is exact and begins with the components asked for, so that 5.15 finds what is
  stored under 5.15.2, and finds nothing stored under 5.15 itself. The tool cache of the
  runner treats the versions 5.15.2 and 5.15 in this way.
\<close>

definition exact_version :: "string \<Rightarrow> bool" where
  "exact_version v =
     (let cs = js_split CHR ''.'' v
      in length cs = 3
         \<and> list_all (\<lambda>c. c \<noteq> [] \<and> list_all (\<lambda>d. d \<in> set ''0123456789'') c) cs)"

definition in_range :: "string \<Rightarrow> string \<Rightarrow> bool" where
  "in_range spec v =
     (exact_version v
      \<and> take (length (js_split CHR ''.'' spec)) (js_split CHR ''.'' v) = js_split CHR ''.'' spec)"

definition sample_lookup :: "tool_entries \<Rightarrow> string \<Rightarrow> string \<Rightarrow> string \<Rightarrow> string" where
  "sample_lookup es tool ver arch =
     (if exact_version ver then
        (case map_of es (tool, ver, arch) of None \<Rightarrow> '''' | Some p \<Rightarrow> p)
      else
        (case filter (\<lambda>e. fst (fst e) = tool \<and> snd (snd (fst e)) = arch
                            \<and> in_range ver (fst (snd (fst e)))) es of
           [] \<Rightarrow> ''''
         | e # _ \<Rightarrow> snd e))"

definition sample_store ::
  "tool_entries \<Rightarrow> string \<Rightarrow> string \<Rightarrow> string \<Rightarrow> string \<Rightarrow> string \<times> tool_entries" where
  "sample_store es src tool ver arch =
     (let dest = ''/opt/hostedtoolcache/'' @ tool @ ''/'' @ ver @ ''/'' @ arch
      in (dest, ((tool, ver, arch), dest) # es))"

text \<open>
  Collaborators for the sample host: the installer puts the build tool of Qt 5.15.2 for
  linux-gcc_64 under the installation root, the tool cache is the one above, and the
  calls in \<open>bad\<close> throw.
\<close>

definition sample_collab :: "event list \<Rightarrow> collab" where
  "sample_collab bad =
     \<lparr>fails = (\<lambda>ev. if ev \<in> set bad then Some (Throw ''failed'') else None),
      which_path = (\<lambda>tool. ''/usr/bin/'' @ tool),
      download_path = (\<lambda>url. ''/tmp/dl/installer.run''),
      installed = (\<lambda>root. [(sample_locate root @ [''5.15.2'', ''linux-gcc_64'', ''bin'', ''qmake''], File)]),
      tc_lookup = sample_lookup,
      tc_store = sample_store\<rparr>"

definition sample_world :: world where
  "sample_world = \<lparr>fs = [], toolcache = [], outputs = [], paths = [], trace = []\<rparr>"

section \<open>Facts about the string primitives\<close>

lemma starts_with_iff: "starts_with s t \<longleftrightarrow> (\<exists>r. s = t @ r)"
  by (induction s t rule: starts_with.induct) auto

lemma js_includes_iff: "js_includes s t \<longleftrightarrow> (\<exists>a b. s = a @ t @ b)"
proof (induction s)
  case Nil
  show ?case by (cases t) auto
next
  case (Cons d s)
  show ?case
  proof
    assume "js_includes (d # s) t"
    then consider "starts_with (d # s) t" | "js_includes s t" by auto
    then show "\<exists>a b. d # s = a @ t @ b"
    proof cases
      case 1
      then obtain r where "d # s = t @ r" using starts_with_iff by blast
      then have "d # s = [] @ t @ r" by simp
      then show ?thesis by blast
    next
      case 2
      then obtain a b where "s = a @ t @ b" using Cons.IH by blast
      then have "d # s = (d # a) @ t @ b" by simp
      then show ?thesis by blast
    qed
  next
    assume "\<exists>a b. d # s = a @ t @ b"
    then obtain a b where ab: "d # s = a @ t @ b" by blast
    show "js_includes (d # s) t"
    proof (cases a)
      case Nil
      with ab have "starts_with (d # s) t" using starts_with_iff by auto
      then show ?thesis by simp
    next
      case (Cons x a')
      with ab have "s = a' @ t @ b" by simp
      then have "js_includes s t" using Cons.IH by blast
      then show ?thesis by simp
    qed
  qed
qed

lemma js_split_not_Nil: "js_split sep s \<noteq> []"
  by (induction s) (auto split: list.splits)

lemma js_split_append:
  "js_split sep (a @ sep # b) = js_split sep a @ js_split sep b"
  if "sep \<notin> set a"
  using that
proof (induction a)
  case Nil
  show ?case by simp
next
  case (Cons c a)
  then have "c \<noteq> sep" and ih: "js_split sep (a @ sep # b) = js_split sep a @ js_split sep b"
    by auto
  obtain x xs where x: "js_split sep a = x # xs"
    using js_split_not_Nil by (cases "js_split sep a") auto
  show ?case using \<open>c \<noteq> sep\<close> ih x by simp
qed

lemma js_split_no_sep: "sep \<notin> set s \<Longrightarrow> js_split sep s = [s]"
  by (induction s) auto

lemma push_entries_eq:
  "push_entries inst modules entries = modules @ map (module_id inst) entries"
  by (induction entries arbitrary: modules) auto

lemma generateScript_modules_eq:
  "generateScript_modules pf inst packages =
     module_id inst (installPlatform pf (platform inst))
       # map (module_id inst) (js_split CHR '','' packages)
       @ (case extraPackages pf (platform inst) of None \<Rightarrow> [] | Some extraPkgs \<Rightarrow> extraPkgs)"
  by (simp add: generateScript_modules_def push_entries_eq split: option.splits)

lemma concat_js_split: "concat (js_split sep s) = filter (\<lambda>c. c \<noteq> sep) s"
proof (induction s)
  case Nil
  show ?case by simp
next
  case (Cons c s)
  obtain x xs where x: "js_split sep s = x # xs"
    using js_split_not_Nil by (cases "js_split sep s") auto
  with Cons show ?case by auto
qed

section \<open>Module identifiers\<close>

text \<open>
  Claim C3, as stated: the version fragment of a module identifier is the major component
  followed by the minor component. It fails: the code deletes every dot of the version,
  so for the version 5.15.2 the fragment is 5152 and not 515.
\<close>

theorem version_fragment_counterexample:
  "qtVer \<lparr>version = ''5.15.2'', platform = LinuxPlatform ''linux-gcc_64'', tempDir = ''/tmp''\<rparr> = ''5152''
   \<and> spec_version_fragment ''5.15.2'' = ''515''
   \<and> qtVer \<lparr>version = ''5.15.2'', platform = LinuxPlatform ''linux-gcc_64'', tempDir = ''/tmp''\<rparr>
       \<noteq> spec_version_fragment ''5.15.2''"
  by (simp add: qtVer_def remove_dots_def spec_version_fragment_def)

text \<open>
  Claim C3, amended: the version fragment is the version with every dot removed, that is
  all its components in a row; the base module and the module of every package entry are
  \<open>qt.qt5.<fragment>.<suffix>\<close>. So version 5.15.2 with the install platform gcc_64 has the
  base module qt.qt5.5152.gcc_64. The fragment is major followed by minor exactly when
  every component after the second is empty, and so whenever the version has at most two
  components.
\<close>

theorem version_fragment_all_dots_removed:
  "qtVer inst = concat (js_split CHR ''.'' (version inst))
   \<and> take (Suc (length (js_split CHR '','' packages))) (generateScript_modules pf inst packages)
       = map (\<lambda>suffix. ''qt.qt5.'' @ concat (js_split CHR ''.'' (version inst)) @ ''.'' @ suffix)
           (installPlatform pf (platform inst) # js_split CHR '','' packages)
   \<and> (version inst = ''5.15.2'' \<and> installPlatform pf (platform inst) = ''gcc_64''
        \<longrightarrow> hd (generateScript_modules pf inst packages) = ''qt.qt5.5152.gcc_64'')
   \<and> (qtVer inst = spec_version_fragment (version inst)
        \<longleftrightarrow> concat (drop 2 (js_split CHR ''.'' (version inst))) = [])
   \<and> (length (js_split CHR ''.'' (version inst)) \<le> 2
        \<longrightarrow> qtVer inst = spec_version_fragment (version inst))"
proof -
  have frag: "qtVer inst = concat (js_split CHR ''.'' (version inst))"
    by (simp add: qtVer_def remove_dots_def concat_js_split)
  have ids: "module_id inst = (\<lambda>suffix. ''qt.qt5.'' @ concat (js_split CHR ''.'' (version inst)) @ ''.'' @ suffix)"
    by (rule ext) (simp add: module_id_def frag)
  have mods: "take (Suc (length (js_split CHR '','' packages))) (generateScript_modules pf inst packages)
      = map (module_id inst) (installPlatform pf (platform inst) # js_split CHR '','' packages)"
    by (simp add: generateScript_modules_eq)
  have scen: "version inst = ''5.15.2'' \<and> installPlatform pf (platform inst) = ''gcc_64''
      \<longrightarrow> hd (generateScript_modules pf inst packages) = ''qt.qt5.5152.gcc_64''"
    by (simp add: generateScript_modules_eq module_id_def qtVer_def remove_dots_def)
  have "concat (js_split CHR ''.'' (version inst))
      = concat (take 2 (js_split CHR ''.'' (version inst)))
        @ concat (drop 2 (js_split CHR ''.'' (version inst)))"
    by (simp only: concat_append [symmetric] append_take_drop_id)
  then have exact: "qtVer inst = spec_version_fragment (version inst)
      \<longleftrightarrow> concat (drop 2 (js_split CHR ''.'' (version inst))) = []"
    unfolding frag spec_version_fragment_def by (metis append_self_conv)
  have two: "length (js_split CHR ''.'' (version inst)) \<le> 2
      \<longrightarrow> qtVer inst = spec_version_fragment (version inst)"
    by (simp add: frag spec_version_fragment_def)
  show ?thesis using frag mods scen exact two unfolding ids by blast
qed

theorem version_fragment_all_dots_removed_witness:
  "version (sample_installer ''5.15.2'') = ''5.15.2''
   \<and> installPlatform sample_impl (platform (sample_installer ''5.15.2'')) = ''gcc_64''
   \<and> hd (generateScript_modules sample_impl (sample_installer ''5.15.2'') '''') = ''qt.qt5.5152.gcc_64''
   \<and> length (js_split CHR ''.'' (version (sample_installer ''5.15''))) \<le> 2
   \<and> qtVer (sample_installer ''5.15'') = spec_version_fragment (version (sample_installer ''5.15''))"
proof -
  have h1: "version (sample_installer ''5.15.2'') = ''5.15.2''
      \<and> installPlatform sample_impl (platform (sample_installer ''5.15.2'')) = ''gcc_64''"
    by (simp add: sample_installer_def sample_impl_def)
  have t1: "hd (generateScript_modules sample_impl (sample_installer ''5.15.2'') '''') = ''qt.qt5.5152.gcc_64''"
    using version_fragment_all_dots_removed [of "sample_installer ''5.15.2''" "''''" sample_impl] h1
    by blast
  have h2: "length (js_split CHR ''.'' (version (sample_installer ''5.15''))) \<le> 2"
    by (simp add: sample_installer_def)
  have t2: "qtVer (sample_installer ''5.15'') = spec_version_fragment (version (sample_installer ''5.15''))"
    using version_fragment_all_dots_removed [of "sample_installer ''5.15''" "''''" sample_impl] h2
    by blast
  show ?thesis using h1 t1 h2 t2 by blast
qed

text \<open>
  Claim C4: the module list handed to the script builder is the base module, then one
  module for each entry of the package string in the order written, then the extra
  packages of the platform in their own order.
\<close>

theorem module_list_order:
  "generateScript pf inst path packages
     = qtScript_generateScript pf path (generateScript_modules pf inst packages)
   \<and> generateScript_modules pf inst packages
     = [module_id inst (installPlatform pf (platform inst))]
       @ map (module_id inst) (js_split CHR '','' packages)
       @ (case extraPackages pf (platform inst) of None \<Rightarrow> [] | Some extraPkgs \<Rightarrow> extraPkgs)
   \<and> hd (generateScript_modules pf inst packages)
     = module_id inst (installPlatform pf (platform inst))
   \<and> take (length (js_split CHR '','' packages)) (tl (generateScript_modules pf inst packages))
     = map (module_id inst) (js_split CHR '','' packages)
   \<and> drop (length (js_split CHR '','' packages)) (tl (generateScript_modules pf inst packages))
     = (case extraPackages pf (platform inst) of None \<Rightarrow> [] | Some extraPkgs \<Rightarrow> extraPkgs)"
  by (simp add: generateScript_def generateScript_modules_eq)

text \<open>
  Claim C9: for the empty package string the module list is not the base module alone:
  the split gives one empty entry, so the module \<open>qt.qt5.<ver>.\<close> with an empty suffix
  follows the base module. In general every empty entry of the split package string gives
  that module, at the position of the entry.
\<close>

theorem empty_package_entries:
  "generateScript_modules pf inst ''''
     = [module_id inst (installPlatform pf (platform inst)), ''qt.qt5.'' @ qtVer inst @ ''.'']
       @ (case extraPackages pf (platform inst) of None \<Rightarrow> [] | Some extraPkgs \<Rightarrow> extraPkgs)
   \<and> generateScript_modules pf inst '''' \<noteq> [module_id inst (installPlatform pf (platform inst))]
   \<and> (\<forall>i < length (js_split CHR '','' packages).
        js_split CHR '','' packages ! i = []
        \<longrightarrow> generateScript_modules pf inst packages ! Suc i = ''qt.qt5.'' @ qtVer inst @ ''.'')"
  by (simp add: generateScript_modules_eq module_id_def nth_append)

theorem empty_package_entries_witness:
  "(1::nat) < length (js_split CHR '','' ''a,,b'')
   \<and> js_split CHR '','' ''a,,b'' ! 1 = []
   \<and> generateScript_modules sample_impl (sample_installer ''5.15.2'') ''a,,b'' ! Suc 1 = ''qt.qt5.5152.''"
  using empty_package_entries [of sample_impl "sample_installer ''5.15.2''" "''a,,b''"]
  by (simp add: qtVer_def remove_dots_def sample_installer_def)

section \<open>Construction and the test policy\<close>

text \<open>
  Claim C7: the constructor selects the platform class from the host operating system
  and the platform key: on linux Android if the key contains \<open>android\<close> and Linux
  otherwise, on win32 MinGW if the key contains \<open>mingw\<close> and MSVC otherwise, on darwin
  macOS; on any other host it throws, and no installer object exists. The constructor
  only reads the host's answers: it calls no collaborator and touches no state.
\<close>

theorem platform_selection:
  "(os_platform h = ''linux'' \<and> (\<exists>a b. key = a @ ''android'' @ b)
      \<longrightarrow> new_Installer h v key
          = Inr \<lparr>version = v, platform = AndroidPlatform key, tempDir = initTempDir h key\<rparr>)
   \<and> (os_platform h = ''linux'' \<and> \<not> (\<exists>a b. key = a @ ''android'' @ b)
      \<longrightarrow> new_Installer h v key
          = Inr \<lparr>version = v, platform = LinuxPlatform key, tempDir = initTempDir h key\<rparr>)
   \<and> (os_platform h = ''win32'' \<and> (\<exists>a b. key = a @ ''mingw'' @ b)
      \<longrightarrow> new_Installer h v key
          = Inr \<lparr>version = v, platform = MingwPlatform key v, tempDir = initTempDir h key\<rparr>)
   \<and> (os_platform h = ''win32'' \<and> \<not> (\<exists>a b. key = a @ ''mingw'' @ b)
      \<longrightarrow> new_Installer h v key
          = Inr \<lparr>version = v, platform = MsvcPlatform key v, tempDir = initTempDir h key\<rparr>)
   \<and> (os_platform h = ''darwin''
      \<longrightarrow> new_Installer h v key
          = Inr \<lparr>version = v, platform = MacosPlatform key, tempDir = initTempDir h key\<rparr>)
   \<and> (os_platform h \<noteq> ''linux'' \<and> os_platform h \<noteq> ''win32'' \<and> os_platform h \<noteq> ''darwin''
      \<longrightarrow> new_Installer h v key
          = Inl (Throw (''Install platform '' @ os_platform h @ '' is not supported by this action'')))"
  unfolding js_includes_iff [symmetric]
  by (simp add: new_Installer_def)

theorem platform_selection_witness:
  "new_Installer (sample_host ''linux'' Map.empty) ''5.15.2'' ''android_arm64''
     = Inr \<lparr>version = ''5.15.2'', platform = AndroidPlatform ''android_arm64'',
            tempDir = ''/home/actions/temp''\<rparr>
   \<and> new_Installer (sample_host ''linux'' Map.empty) ''5.15.2'' ''gcc_64''
     = Inr \<lparr>version = ''5.15.2'', platform = LinuxPlatform ''gcc_64'',
            tempDir = ''/home/actions/temp''\<rparr>
   \<and> new_Installer (sample_host ''win32'' Map.empty) ''5.15.2'' ''mingw73_64''
     = Inr \<lparr>version = ''5.15.2'', platform = MingwPlatform ''mingw73_64'' ''5.15.2'',
            tempDir = ''/home/actions/temp''\<rparr>
   \<and> new_Installer (sample_host ''win32'' Map.empty) ''5.15.2'' ''msvc2017_64''
     = Inr \<lparr>version = ''5.15.2'', platform = MsvcPlatform ''msvc2017_64'' ''5.15.2'',
            tempDir = ''/home/actions/temp''\<rparr>
   \<and> new_Installer (sample_host ''darwin'' Map.empty) ''5.15.2'' ''clang_64''
     = Inr \<lparr>version = ''5.15.2'', platform = MacosPlatform ''clang_64'',
            tempDir = ''/home/actions/temp''\<rparr>
   \<and> new_Installer (sample_host ''freebsd'' Map.empty) ''5.15.2'' ''gcc_64''
     = Inl (Throw ''Install platform freebsd is not supported by this action'')"
proof -
  have tmp: "\<And>os key. key \<noteq> ''win32'' \<Longrightarrow> key \<noteq> ''darwin'' \<Longrightarrow>
      initTempDir (sample_host os Map.empty) key = ''/home/actions/temp''"
    by (simp add: initTempDir_def env_or_def sample_host_def)
  have os: "\<And>os. os_platform (sample_host os Map.empty) = os"
    by (simp add: sample_host_def)
  have a: "\<exists>a b. ''android_arm64'' = a @ ''android'' @ b"
    unfolding js_includes_iff [symmetric] by simp
  have l: "\<not> (\<exists>a b. ''gcc_64'' = a @ ''android'' @ b)"
    unfolding js_includes_iff [symmetric] by simp
  have m: "\<exists>a b. ''mingw73_64'' = a @ ''mingw'' @ b"
    unfolding js_includes_iff [symmetric] by simp
  have v: "\<not> (\<exists>a b. ''msvc2017_64'' = a @ ''mingw'' @ b)"
    unfolding js_includes_iff [symmetric] by simp
  have 1: "new_Installer (sample_host ''linux'' Map.empty) ''5.15.2'' ''android_arm64''
     = Inr \<lparr>version = ''5.15.2'', platform = AndroidPlatform ''android_arm64'',
            tempDir = ''/home/actions/temp''\<rparr>"
    using platform_selection [of "sample_host ''linux'' Map.empty" "''android_arm64''" "''5.15.2''"] a
    by (simp add: os tmp)
  have 2: "new_Installer (sample_host ''linux'' Map.empty) ''5.15.2'' ''gcc_64''
     = Inr \<lparr>version = ''5.15.2'', platform = LinuxPlatform ''gcc_64'',
            tempDir = ''/home/actions/temp''\<rparr>"
    using platform_selection [of "sample_host ''linux'' Map.empty" "''gcc_64''" "''5.15.2''"] l
    by (simp add: os tmp)
  have 3: "new_Installer (sample_host ''win32'' Map.empty) ''5.15.2'' ''mingw73_64''
     = Inr \<lparr>version = ''5.15.2'', platform = MingwPlatform ''mingw73_64'' ''5.15.2'',
            tempDir = ''/home/actions/temp''\<rparr>"
    using platform_selection [of "sample_host ''win32'' Map.empty" "''mingw73_64''" "''5.15.2''"] m
    by (simp add: os tmp)
  have 4: "new_Installer (sample_host ''win32'' Map.empty) ''5.15.2'' ''msvc2017_64''
     = Inr \<lparr>version = ''5.15.2'', platform = MsvcPlatform ''msvc2017_64'' ''5.15.2'',
            tempDir = ''/home/actions/temp''\<rparr>"
    using platform_selection [of "sample_host ''win32'' Map.empty" "''msvc2017_64''" "''5.15.2''"] v
    by (simp add: os tmp)
  have 5: "new_Installer (sample_host ''darwin'' Map.empty) ''5.15.2'' ''clang_64''
     = Inr \<lparr>version = ''5.15.2'', platform = MacosPlatform ''clang_64'',
            tempDir = ''/home/actions/temp''\<rparr>"
    using platform_selection [of "sample_host ''darwin'' Map.empty" "''clang_64''" "''5.15.2''"]
    by (simp add: os tmp)
  have 6: "new_Installer (sample_host ''freebsd'' Map.empty) ''5.15.2'' ''gcc_64''
     = Inl (Throw ''Install platform freebsd is not supported by this action'')"
    using platform_selection [of "sample_host ''freebsd'' Map.empty" "''gcc_64''" "''5.15.2''"]
    by (simp add: os)
  show ?thesis using 1 2 3 4 5 6 by blast
qed

text \<open>
  Claim C10: when RUNNER_TEMP is unset (or empty), the fallback root of the temporary
  directory is chosen by comparing the requested platform key, not the host operating
  system, with \<open>win32\<close> and \<open>darwin\<close>: the host never matters, the key \<open>win32\<close>
  gives the branch of USERPROFILE and the key \<open>darwin\<close> the branch of /Users on any
  host. For every platform key other than these two literals the result is the join of
  /home, actions and temp, whatever the host is and whatever USERPROFILE holds.
\<close>

theorem temp_dir_fallback:
  "initTempDir (h\<lparr>os_platform := os\<rparr>) key = initTempDir h key
   \<and> ((env h ''RUNNER_TEMP'' = None \<or> env h ''RUNNER_TEMP'' = Some '''')
        \<and> key \<noteq> ''win32'' \<and> key \<noteq> ''darwin''
      \<longrightarrow> initTempDir h key = path_join h [''/home'', ''actions'', ''temp'']
        \<and> initTempDir (h\<lparr>env := (env h)(''USERPROFILE'' := up)\<rparr>) key = initTempDir h key)
   \<and> ((env h ''RUNNER_TEMP'' = None \<or> env h ''RUNNER_TEMP'' = Some '''') \<and> key = ''win32''
      \<longrightarrow> initTempDir h key
          = path_join h [env_or h ''USERPROFILE'' [CHR ''C'', CHR '':'', CHR 0x5C], ''actions'', ''temp''])
   \<and> ((env h ''RUNNER_TEMP'' = None \<or> env h ''RUNNER_TEMP'' = Some '''') \<and> key = ''darwin''
      \<longrightarrow> initTempDir h key = path_join h [''/Users'', ''actions'', ''temp''])"
  by (auto simp add: initTempDir_def env_or_def Let_def)

theorem temp_dir_fallback_witness:
  "env (sample_host ''win32'' [''USERPROFILE'' \<mapsto> ''C:/Users/runner'']) ''RUNNER_TEMP'' = None
   \<and> ''msvc2017_64'' \<noteq> ''win32'' \<and> ''msvc2017_64'' \<noteq> ''darwin''
   \<and> initTempDir (sample_host ''win32'' [''USERPROFILE'' \<mapsto> ''C:/Users/runner'']) ''msvc2017_64''
       = ''/home/actions/temp''
   \<and> env (sample_host ''linux'' [''USERPROFILE'' \<mapsto> ''C:/Users/runner'']) ''RUNNER_TEMP'' = None
   \<and> initTempDir (sample_host ''linux'' [''USERPROFILE'' \<mapsto> ''C:/Users/runner'']) ''win32''
       = ''C:/Users/runner/actions/temp''
   \<and> initTempDir (sample_host ''linux'' [''USERPROFILE'' \<mapsto> ''C:/Users/runner'']) ''darwin''
       = ''/Users/actions/temp''"
proof -
  let ?e = "[''USERPROFILE'' \<mapsto> ''C:/Users/runner'']"
  have h: "env (sample_host ''win32'' ?e) ''RUNNER_TEMP'' = None
      \<and> ''msvc2017_64'' \<noteq> ''win32'' \<and> ''msvc2017_64'' \<noteq> ''darwin''"
    by (simp add: sample_host_def)
  have "initTempDir (sample_host ''win32'' ?e) ''msvc2017_64''
      = path_join (sample_host ''win32'' ?e) [''/home'', ''actions'', ''temp'']"
    using temp_dir_fallback [where h = "sample_host ''win32'' ?e" and key = "''msvc2017_64''"] h
    by blast
  then have t1: "initTempDir (sample_host ''win32'' ?e) ''msvc2017_64'' = ''/home/actions/temp''"
    by (simp add: sample_host_def)
  have l: "env (sample_host ''linux'' ?e) ''RUNNER_TEMP'' = None"
    by (simp add: sample_host_def)
  have "initTempDir (sample_host ''linux'' ?e) ''win32''
      = path_join (sample_host ''linux'' ?e)
          [env_or (sample_host ''linux'' ?e) ''USERPROFILE'' [CHR ''C'', CHR '':'', CHR 0x5C],
           ''actions'', ''temp'']"
    using temp_dir_fallback [where h = "sample_host ''linux'' ?e" and key = "''win32''"] l
    by blast
  then have t2: "initTempDir (sample_host ''linux'' ?e) ''win32'' = ''C:/Users/runner/actions/temp''"
    by (simp add: sample_host_def env_or_def)
  have "initTempDir (sample_host ''linux'' ?e) ''darwin''
      = path_join (sample_host ''linux'' ?e) [''/Users'', ''actions'', ''temp'']"
    using temp_dir_fallback [where h = "sample_host ''linux'' ?e" and key = "''darwin''"] l
    by blast
  then have t3: "initTempDir (sample_host ''linux'' ?e) ''darwin'' = ''/Users/actions/temp''"
    by (simp add: sample_host_def)
  from h t1 l t2 t3 show ?thesis
    by blast
qed

section \<open>Running the blocks\<close>

lemmas collab_defs = io_which_def ex_exec_def tc_find_def tc_cacheDir_def tc_downloadTool_def
  fs_mkdir_def fs_writeFile_def fs_symlink_def io_mkdirP_def io_mv_def rimraf_sync_def
  core_setOutput_def core_addPath_def runPreInstaller_def runPostInstaller_def
  addExtraEnvVars_def runInstaller_def run_setupInstallDir_def

lemmas exec_simps = await_def return_def modify_def gets_def call_def

lemma performed_append:
  "performed c (xs @ ys) =
     (case first_failure c xs of None \<Rightarrow> xs @ performed c ys | Some e \<Rightarrow> performed c xs)"
  by (induction xs) (auto split: option.splits)

lemma first_failure_append:
  "first_failure c (xs @ ys) =
     (case first_failure c xs of None \<Rightarrow> first_failure c ys | Some e \<Rightarrow> Some e)"
  by (induction xs) (auto split: option.splits)

lemma first_failure_None_iff: "first_failure c xs = None \<longleftrightarrow> (\<forall>x \<in> set xs. fails c x = None)"
  by (induction xs) (auto split: option.splits)

lemma performed_all: "first_failure c xs = None \<Longrightarrow> performed c xs = xs"
  by (induction xs) (auto split: option.splits)

lemma set_performed: "set (performed c xs) \<subseteq> set xs"
  by (induction xs) (auto split: option.splits)

lemma installQdep_run:
  "installQdep c w =
     (case first_failure c (installQdep_steps c) of None \<Rightarrow> Inr () | Some e \<Rightarrow> Inl e,
      w\<lparr>trace := trace w @ performed c (installQdep_steps c)\<rparr>)"
  by (simp add: installQdep_def installQdep_steps_def collab_defs exec_simps split: option.splits)

lemma checkCaches_run:
  "checkCaches h pf c inst cachedir w =
     (case first_failure c (lookup_steps inst cachedir) of
        Some e \<Rightarrow> Inl e
      | None \<Rightarrow>
          Inr (if cachedir \<noteq> [] then
                 (if fssync_existsSync h (path_join h [cachedir, ''bin'', qmakeName pf (platform inst)]) w
                  then Some (path_resolve h cachedir) else None)
               else Some (tc_found c inst w)),
      w\<lparr>trace := trace w @ performed c (lookup_steps inst cachedir)\<rparr>)"
  by (simp add: checkCaches_def lookup_steps_def tc_found_def collab_defs exec_simps
        split: option.splits)

lemma acquireQt_run:
  "acquireQt h pf c inst packages iArgs cachedir w =
     (case first_failure c (acquire_plan h pf c inst packages iArgs cachedir) of
        Some e \<Rightarrow> Inl e
      | None \<Rightarrow> Inr (if cachedir \<noteq> [] then path_resolve h cachedir
                     else fst (tc_stored h c inst w)),
      w\<lparr>trace := trace w @ performed c (acquire_plan h pf c inst packages iArgs cachedir),
        toolcache :=
          (if cachedir = [] \<and> first_failure c (acquire_steps h pf c inst packages iArgs
                                                 @ [store_step h inst cachedir]) = None
           then snd (tc_stored h c inst w)
           else toolcache w),
        fs := acquire_fs h pf c inst packages iArgs cachedir w\<rparr>)"
  unfolding acquire_fs_def
  by (simp add: acquireQt_def acquire_plan_def acquire_steps_def store_step_def Let_def
        tc_stored_def collab_defs exec_simps split: option.splits)

lemma publishQt_run:
  "publishQt h pf c inst tp w =
     (case first_failure c (publish_steps h pf tp @ link_steps h pf inst tp) of
        Some e \<Rightarrow> Inl e | None \<Rightarrow> Inr (),
      w\<lparr>trace := trace w @ performed c (publish_steps h pf tp @ link_steps h pf inst tp),
        outputs := outputs w @ (''qtdir'', tp) #
          (if first_failure c (publish_steps h pf tp) = None
           then [(''make'', makeName pf (platform inst)),
                 (''tests'', String_of_bool (shouldTest inst)),
                 (''testflags'', testFlags pf (platform inst))]
                @ (if first_failure c (link_steps h pf inst tp) = None
                   then [(''installdir'', snd (setupInstallDir pf (platform inst)))] else [])
           else []),
        paths := path_join h [tp, ''bin''] # paths w,
        fs := publish_fs h pf c inst tp w\<rparr>)"
  unfolding publish_fs_def
  by (simp add: publishQt_def publish_steps_def link_steps_def
        collab_defs exec_simps split: option.splits)

lemma await_assoc: "await (await m f) g = await m (\<lambda>a. await (f a) g)"
  by (rule ext) (simp add: await_def split: prod.splits sum.splits)

lemma getQt_decide:
  "getQt h pf c inst packages iArgs cachedir =
     await (decideQt h pf c inst packages iArgs cachedir) (publishQt h pf c inst)"
  by (simp add: getQt_def decideQt_def await_assoc)

lemma tc_found_trace [simp]: "tc_found c inst (w\<lparr>trace := t\<rparr>) = tc_found c inst w"
  by (simp add: tc_found_def)

lemma tc_stored_trace [simp]: "tc_stored h c inst (w\<lparr>trace := t\<rparr>) = tc_stored h c inst w"
  by (simp add: tc_stored_def)

lemma lookup_value_trace [simp]:
  "lookup_value h pf c inst cachedir (w\<lparr>trace := t\<rparr>) = lookup_value h pf c inst cachedir w"
  by (simp add: lookup_value_def fssync_existsSync_def)

lemma lookup_value_hit:
  "cache_hit h pf c inst cachedir w \<Longrightarrow>
     lookup_value h pf c inst cachedir w = Some (toolRoot h c inst cachedir w)
     \<and> toolRoot h c inst cachedir w \<noteq> []"
  by (auto simp add: cache_hit_def lookup_value_def toolRoot_def split: option.splits if_splits)

lemma lookup_value_miss:
  "\<not> cache_hit h pf c inst cachedir w \<Longrightarrow>
     lookup_value h pf c inst cachedir w = None \<or> lookup_value h pf c inst cachedir w = Some []"
  by (auto simp add: cache_hit_def lookup_value_def split: option.splits if_splits)

lemma checkCaches_run':
  "checkCaches h pf c inst cachedir w =
     (case first_failure c (lookup_steps inst cachedir) of
        Some e \<Rightarrow> Inl e
      | None \<Rightarrow> Inr (lookup_value h pf c inst cachedir w),
      w\<lparr>trace := trace w @ performed c (lookup_steps inst cachedir)\<rparr>)"
  unfolding lookup_value_def by (rule checkCaches_run)

lemma decideQt_hit:
  assumes "cache_hit h pf c inst cachedir w"
  shows "decideQt h pf c inst packages iArgs cachedir w =
     (case first_failure c (installQdep_steps c @ lookup_steps inst cachedir @ [RunPreInstaller True]) of
        Some e \<Rightarrow> Inl e | None \<Rightarrow> Inr (toolRoot h c inst cachedir w),
      w\<lparr>trace := trace w @ performed c (installQdep_steps c @ lookup_steps inst cachedir
                                          @ [RunPreInstaller True])\<rparr>)"
  using lookup_value_hit [OF assms]
  by (simp add: decideQt_def installQdep_run checkCaches_run'
        runPreInstaller_def await_def return_def call_def
        performed_append first_failure_append performed_all
      split: option.splits)

lemma decideQt_miss:
  assumes "\<not> cache_hit h pf c inst cachedir w"
  shows "decideQt h pf c inst packages iArgs cachedir w =
     (case first_failure c (installQdep_steps c @ lookup_steps inst cachedir @ [RunPreInstaller False]) of
        Some e \<Rightarrow>
          (Inl e, w\<lparr>trace := trace w @ performed c (installQdep_steps c @ lookup_steps inst cachedir
                                          @ [RunPreInstaller False])\<rparr>)
      | None \<Rightarrow>
          acquireQt h pf c inst packages iArgs cachedir
            (w\<lparr>trace := trace w @ installQdep_steps c @ lookup_steps inst cachedir
                                          @ [RunPreInstaller False]\<rparr>))"
  using lookup_value_miss [OF assms]
  by (auto simp add: decideQt_def installQdep_run checkCaches_run'
        runPreInstaller_def await_def return_def call_def
        performed_append first_failure_append performed_all
      split: option.splits)

lemma first_failure_append_None:
  "first_failure c (xs @ ys) = None \<longleftrightarrow> first_failure c xs = None \<and> first_failure c ys = None"
  by (simp add: first_failure_append split: option.splits)

lemma performed_pred: "(\<forall>x \<in> set xs. P x) \<Longrightarrow> (\<forall>x \<in> set (performed c xs). P x)"
  using set_performed by blast

lemma acquire_plan_Cons:
  "acquire_plan h pf c inst packages iArgs cachedir =
     DownloadTool (''https://download.qt.io/official_releases/online_installers/''
                     @ installerName pf (platform inst))
       # tl (acquire_plan h pf c inst packages iArgs cachedir)"
  by (simp add: acquire_plan_def acquire_steps_def Let_def)

lemma acquire_plan_no_hook: "\<forall>x \<in> set (acquire_plan h pf c inst packages iArgs cachedir). \<not> is_hook x"
  by (simp add: acquire_plan_def acquire_steps_def store_step_def Let_def)


lemma publish_link_quiet:
  "\<forall>x \<in> set (publish_steps h pf tp @ link_steps h pf inst tp).
     \<not> is_hook x \<and> \<not> is_acquisition x \<and> \<not> is_cache_write x"
  by (simp add: publish_steps_def link_steps_def)

lemma getQt_hit_trace:
  assumes hit: "cache_hit h pf c inst cachedir w"
    and boot: "first_failure c (installQdep_steps c @ lookup_steps inst cachedir) = None"
  shows "\<exists>rest. trace (snd (getQt h pf c inst packages iArgs cachedir w))
           = trace w @ installQdep_steps c @ lookup_steps inst cachedir @ RunPreInstaller True # rest
         \<and> (\<forall>ev \<in> set rest. \<not> is_hook ev \<and> \<not> is_acquisition ev \<and> \<not> is_cache_write ev)"
proof -
  from boot have b1: "first_failure c (installQdep_steps c) = None"
    and b2: "first_failure c (lookup_steps inst cachedir) = None"
    by (simp_all add: first_failure_append_None)
  show ?thesis
  proof (cases "fails c (RunPreInstaller True)")
  case (Some e)
  then have "trace (snd (getQt h pf c inst packages iArgs cachedir w))
      = trace w @ installQdep_steps c @ lookup_steps inst cachedir @ RunPreInstaller True # []"
    using b1 b2
    by (simp add: getQt_decide await_def decideQt_hit [OF hit] performed_append
          first_failure_append performed_all)
  then show ?thesis by simp
next
  case None
  let ?tp = "toolRoot h c inst cachedir w"
  have "trace (snd (getQt h pf c inst packages iArgs cachedir w))
      = trace w @ installQdep_steps c @ lookup_steps inst cachedir @ RunPreInstaller True
          # performed c (publish_steps h pf ?tp @ link_steps h pf inst ?tp)"
    using b1 b2 None
    by (simp add: getQt_decide await_def decideQt_hit [OF hit] publishQt_run performed_append
          first_failure_append performed_all)
  moreover have "\<forall>ev \<in> set (performed c (publish_steps h pf ?tp @ link_steps h pf inst ?tp)).
      \<not> is_hook ev \<and> \<not> is_acquisition ev \<and> \<not> is_cache_write ev"
    by (rule performed_pred) (rule publish_link_quiet)
  ultimately show ?thesis by blast
  qed
qed

lemma getQt_miss_trace:
  assumes miss: "\<not> cache_hit h pf c inst cachedir w"
    and boot: "first_failure c (installQdep_steps c @ lookup_steps inst cachedir) = None"
  shows "\<exists>rest. trace (snd (getQt h pf c inst packages iArgs cachedir w))
           = trace w @ installQdep_steps c @ lookup_steps inst cachedir @ RunPreInstaller False # rest
         \<and> (\<forall>ev \<in> set rest. \<not> is_hook ev)
         \<and> (fails c (RunPreInstaller False) = None \<longrightarrow>
              (\<exists>rest'. rest = DownloadTool (''https://download.qt.io/official_releases/online_installers/''
                     @ installerName pf (platform inst)) # rest'))"
proof -
  from boot have b1: "first_failure c (installQdep_steps c) = None"
    and b2: "first_failure c (lookup_steps inst cachedir) = None"
    by (simp_all add: first_failure_append_None)
  show ?thesis
  proof (cases "fails c (RunPreInstaller False)")
  case (Some e)
  then have "trace (snd (getQt h pf c inst packages iArgs cachedir w))
      = trace w @ installQdep_steps c @ lookup_steps inst cachedir @ RunPreInstaller False # []"
    using b1 b2
    by (simp add: getQt_decide await_def decideQt_miss [OF miss] performed_append
          first_failure_append performed_all)
  with Some show ?thesis by simp
next
  case None
  let ?plan = "acquire_plan h pf c inst packages iArgs cachedir"
  let ?tp = "if cachedir \<noteq> [] then path_resolve h cachedir else fst (tc_stored h c inst w)"
  let ?pub = "publish_steps h pf ?tp @ link_steps h pf inst ?tp"
  have tr: "trace (snd (getQt h pf c inst packages iArgs cachedir w))
      = trace w @ installQdep_steps c @ lookup_steps inst cachedir @ RunPreInstaller False
          # performed c ?plan
          @ (case first_failure c ?plan of None \<Rightarrow> performed c ?pub | Some e \<Rightarrow> [])"
    using b1 b2 None
    by (simp add: getQt_decide await_def decideQt_miss [OF miss] acquireQt_run publishQt_run
          first_failure_append split: option.splits)
  have a: "\<forall>ev \<in> set (performed c ?plan). \<not> is_hook ev"
    by (rule performed_pred) (rule acquire_plan_no_hook)
  have p: "\<forall>ev \<in> set (performed c ?pub). \<not> is_hook ev"
    using performed_pred [OF publish_link_quiet] by blast
  have d: "\<exists>rest'. performed c ?plan = DownloadTool (''https://download.qt.io/official_releases/online_installers/''
                     @ installerName pf (platform inst)) # rest'"
    by (subst acquire_plan_Cons) simp
  from tr a p d show ?thesis
    by (auto split: option.splits)
  qed
qed

section \<open>Whole runs\<close>

lemma toolRoot_miss:
  "\<not> cache_hit h pf c inst cachedir w \<Longrightarrow>
     (if cachedir \<noteq> [] then path_resolve h cachedir else fst (tc_stored h c inst w))
     = toolRoot h c inst cachedir w"
  by (auto simp add: cache_hit_def toolRoot_def split: option.splits)

lemma toolRoot_trace [simp]:
  "toolRoot h c inst cachedir (w\<lparr>trace := t\<rparr>) = toolRoot h c inst cachedir w"
  by (simp add: toolRoot_def)

lemma getQt_run_hit:
  assumes hit: "cache_hit h pf c inst cachedir w"
  shows "getQt h pf c inst packages iArgs cachedir w =
     (case first_failure c (installQdep_steps c @ lookup_steps inst cachedir @ [RunPreInstaller True]) of
        Some e \<Rightarrow>
          (Inl e, w\<lparr>trace := trace w @ performed c (installQdep_steps c @ lookup_steps inst cachedir
                                                      @ [RunPreInstaller True])\<rparr>)
      | None \<Rightarrow>
          publishQt h pf c inst (toolRoot h c inst cachedir w)
            (w\<lparr>trace := trace w @ installQdep_steps c @ lookup_steps inst cachedir
                                  @ [RunPreInstaller True]\<rparr>))"
  by (simp add: getQt_decide await_def decideQt_hit [OF hit] performed_all split: option.splits)

lemma getQt_run_miss:
  assumes miss: "\<not> cache_hit h pf c inst cachedir w"
  shows "getQt h pf c inst packages iArgs cachedir w =
     (case first_failure c (installQdep_steps c @ lookup_steps inst cachedir @ [RunPreInstaller False]) of
        Some e \<Rightarrow>
          (Inl e, w\<lparr>trace := trace w @ performed c (installQdep_steps c @ lookup_steps inst cachedir
                                                      @ [RunPreInstaller False])\<rparr>)
      | None \<Rightarrow>
          (case first_failure c (acquire_plan h pf c inst packages iArgs cachedir) of
             Some e \<Rightarrow>
               (Inl e,
                w\<lparr>trace := trace w @ installQdep_steps c @ lookup_steps inst cachedir
                     @ RunPreInstaller False # performed c (acquire_plan h pf c inst packages iArgs cachedir),
                  toolcache :=
                    (if cachedir = [] \<and> first_failure c (acquire_steps h pf c inst packages iArgs
                                                           @ [store_step h inst cachedir]) = None
                     then snd (tc_stored h c inst w)
                     else toolcache w),
                  fs := acquire_fs h pf c inst packages iArgs cachedir
                          (w\<lparr>trace := trace w @ installQdep_steps c @ lookup_steps inst cachedir
                                @ [RunPreInstaller False]\<rparr>)\<rparr>)
           | None \<Rightarrow>
               publishQt h pf c inst (toolRoot h c inst cachedir w)
                 (w\<lparr>trace := trace w @ installQdep_steps c @ lookup_steps inst cachedir
                     @ RunPreInstaller False # acquire_plan h pf c inst packages iArgs cachedir,
                  toolcache :=
                    (if cachedir = []
                     then snd (tc_stored h c inst w)
                     else toolcache w),
                  fs := acquire_fs h pf c inst packages iArgs cachedir
                          (w\<lparr>trace := trace w @ installQdep_steps c @ lookup_steps inst cachedir
                                @ [RunPreInstaller False]\<rparr>)\<rparr>)))"
proof (cases "first_failure c (installQdep_steps c @ lookup_steps inst cachedir @ [RunPreInstaller False])")
  case (Some e)
  then show ?thesis
    by (simp add: getQt_decide await_def decideQt_miss [OF miss])
next
  case None
  note pre = None
  show ?thesis
  proof (cases "first_failure c (acquire_plan h pf c inst packages iArgs cachedir)")
    case (Some e)
    with pre show ?thesis
      by (simp add: getQt_decide await_def decideQt_miss [OF miss] acquireQt_run
            split del: if_split cong: if_cong)
  next
    case None
    then have st: "first_failure c (acquire_steps h pf c inst packages iArgs
                                     @ [store_step h inst cachedir]) = None"
      by (auto simp add: first_failure_None_iff acquire_plan_def)
    from pre None st show ?thesis
      by (simp add: getQt_decide await_def decideQt_miss [OF miss] acquireQt_run performed_all
            toolRoot_miss [OF miss, symmetric])
  qed
qed

lemma exists_at_iff: "exists_at f l \<longleftrightarrow> l \<in> fst ` set f"
  by (simp add: exists_at_def map_of_eq_None_iff)

lemma exists_add_entry: "exists_at (add_entry l k f) l' \<longleftrightarrow> l' = l \<or> exists_at f l'"
  by (auto simp add: exists_at_iff add_entry_def)




lemma exists_make_dirs_from: "exists_at f l \<Longrightarrow> exists_at (make_dirs_from pre d f) l"
  by (induction pre d f rule: make_dirs_from.induct) (auto simp add: exists_add_entry)

lemma exists_make_dirs: "exists_at f l \<Longrightarrow> exists_at (make_dirs d f) l"
  by (simp add: make_dirs_def exists_make_dirs_from)






lemma keeps_return: "keeps_files (return a)"
  by (simp add: keeps_files_def return_def)

lemma keeps_call: "keeps_files (call c ev)"
  by (simp add: keeps_files_def call_def split: option.splits)

lemma keeps_modify:
  "(\<And>w l. exists_at (fs w) l \<Longrightarrow> exists_at (fs (g w)) l) \<Longrightarrow> keeps_files (modify g)"
  by (simp add: keeps_files_def modify_def)

lemma keeps_await: "keeps_files m \<Longrightarrow> (\<And>a. keeps_files (f a)) \<Longrightarrow> keeps_files (await m f)"
  by (auto simp add: keeps_files_def await_def split: prod.splits sum.splits)
    (metis snd_conv)+

lemma keeps_publishQt: "keeps_files (publishQt h pf c inst tp)"
  unfolding publishQt_def collab_defs
  by (intro keeps_await keeps_call keeps_modify keeps_return)
    (simp_all add: exists_add_entry exists_make_dirs)

lemma publish_fs_keeps: "exists_at (fs w) l \<Longrightarrow> exists_at (publish_fs h pf c inst tp w) l"
  using keeps_publishQt [of h pf c inst tp] by (simp add: keeps_files_def publish_fs_def)




lemma publishQt_success:
  assumes "fst (publishQt h pf c inst tp w) = Inr ()"
  shows "outputs (snd (publishQt h pf c inst tp w))
      = outputs w @ [(''qtdir'', tp), (''make'', makeName pf (platform inst)),
                     (''tests'', String_of_bool (shouldTest inst)),
                     (''testflags'', testFlags pf (platform inst)),
                     (''installdir'', snd (setupInstallDir pf (platform inst)))]"
    and "toolcache (snd (publishQt h pf c inst tp w)) = toolcache w"
proof -
  from assms have "first_failure c (publish_steps h pf tp @ link_steps h pf inst tp) = None"
    by (simp add: publishQt_run split: option.splits)
  then have "first_failure c (publish_steps h pf tp) = None"
    and "first_failure c (link_steps h pf inst tp) = None"
    by (simp_all add: first_failure_append_None)
  then show "outputs (snd (publishQt h pf c inst tp w))
      = outputs w @ [(''qtdir'', tp), (''make'', makeName pf (platform inst)),
                     (''tests'', String_of_bool (shouldTest inst)),
                     (''testflags'', testFlags pf (platform inst)),
                     (''installdir'', snd (setupInstallDir pf (platform inst)))]"
    by (simp add: publishQt_run)
  show "toolcache (snd (publishQt h pf c inst tp w)) = toolcache w"
    by (simp add: publishQt_run)
qed


lemma getQt_miss_success:
  assumes miss: "\<not> cache_hit h pf c inst cachedir w"
    and ok: "fst (getQt h pf c inst packages iArgs cachedir w) = Inr ()"
  shows "first_failure c (acquire_plan h pf c inst packages iArgs cachedir) = None
    \<and> toolcache (snd (getQt h pf c inst packages iArgs cachedir w))
        = (if cachedir = []
           then snd (tc_stored h c inst w)
           else toolcache w)
    \<and> outputs (snd (getQt h pf c inst packages iArgs cachedir w))
        = outputs w @ [(''qtdir'', toolRoot h c inst cachedir w),
                       (''make'', makeName pf (platform inst)),
                       (''tests'', String_of_bool (shouldTest inst)),
                       (''testflags'', testFlags pf (platform inst)),
                       (''installdir'', snd (setupInstallDir pf (platform inst)))]
    \<and> (\<forall>l. exists_at (acquire_fs h pf c inst packages iArgs cachedir
                 (w\<lparr>trace := trace w @ installQdep_steps c @ lookup_steps inst cachedir
                                 @ [RunPreInstaller False]\<rparr>)) l
           \<longrightarrow> exists_at (fs (snd (getQt h pf c inst packages iArgs cachedir w))) l)"
proof (cases "first_failure c (installQdep_steps c @ lookup_steps inst cachedir @ [RunPreInstaller False])")
  case (Some e)
  with ok show ?thesis
    by (simp add: getQt_run_miss [OF miss])
next
  case None
  note pre = None
  show ?thesis
  proof (cases "first_failure c (acquire_plan h pf c inst packages iArgs cachedir)")
    case (Some e)
    with ok pre show ?thesis
      by (simp add: getQt_run_miss [OF miss])
  next
    case None
    let ?wa = "w\<lparr>trace := trace w @ installQdep_steps c @ lookup_steps inst cachedir
                     @ RunPreInstaller False # acquire_plan h pf c inst packages iArgs cachedir,
                  toolcache :=
                    (if cachedir = []
                     then snd (tc_stored h c inst w)
                     else toolcache w),
                  fs := acquire_fs h pf c inst packages iArgs cachedir
                          (w\<lparr>trace := trace w @ installQdep_steps c @ lookup_steps inst cachedir
                                @ [RunPreInstaller False]\<rparr>)\<rparr>"
    from pre None have run: "getQt h pf c inst packages iArgs cachedir w
        = publishQt h pf c inst (toolRoot h c inst cachedir w) ?wa"
      by (simp add: getQt_run_miss [OF miss])
    with ok have pok: "fst (publishQt h pf c inst (toolRoot h c inst cachedir w) ?wa) = Inr ()"
      by simp
    have keep: "\<forall>l. exists_at (fs ?wa) l
        \<longrightarrow> exists_at (fs (snd (publishQt h pf c inst (toolRoot h c inst cachedir w) ?wa))) l"
      using publish_fs_keeps [of ?wa _ h pf c inst "toolRoot h c inst cachedir w"]
      by (simp add: publish_fs_def)
    from None publishQt_success [OF pok] keep show ?thesis
      unfolding run by (simp split del: if_split cong: if_cong)
  qed
qed


lemma getQt_success_outputs:
  assumes ok: "fst (getQt h pf c inst packages iArgs cachedir w) = Inr ()"
  shows "outputs (snd (getQt h pf c inst packages iArgs cachedir w))
        = outputs w @ [(''qtdir'', toolRoot h c inst cachedir w),
                       (''make'', makeName pf (platform inst)),
                       (''tests'', String_of_bool (shouldTest inst)),
                       (''testflags'', testFlags pf (platform inst)),
                       (''installdir'', snd (setupInstallDir pf (platform inst)))]"
proof (cases "cache_hit h pf c inst cachedir w")
  case False
  from getQt_miss_success [OF False ok] show ?thesis by blast
next
  case True
  show ?thesis
  proof (cases "first_failure c (installQdep_steps c @ lookup_steps inst cachedir @ [RunPreInstaller True])")
    case (Some e)
    with ok show ?thesis
      by (simp add: getQt_run_hit [OF True])
  next
    case None
    then have run: "getQt h pf c inst packages iArgs cachedir w
      = publishQt h pf c inst (toolRoot h c inst cachedir w)
          (w\<lparr>trace := trace w @ installQdep_steps c @ lookup_steps inst cachedir
                                @ [RunPreInstaller True]\<rparr>)"
      by (simp add: getQt_run_hit [OF True])
    from ok publishQt_success(1) [of h pf c inst "toolRoot h c inst cachedir w"
        "w\<lparr>trace := trace w @ installQdep_steps c @ lookup_steps inst cachedir
                                @ [RunPreInstaller True]\<rparr>"]
    show ?thesis
      unfolding run by simp
  qed
qed

lemma getQt_no_failure:
  assumes "\<And>ev. fails c ev = None"
  shows "fst (getQt h pf c inst packages iArgs cachedir w) = Inr ()"
proof -
  have ff: "\<And>xs. first_failure c xs = None"
    by (simp add: first_failure_None_iff assms)
  show ?thesis
    by (cases "cache_hit h pf c inst cachedir w")
      (simp_all add: getQt_run_hit getQt_run_miss ff publishQt_run)
qed

lemma sample_collab_ok: "fails (sample_collab []) ev = None"
  by (simp add: sample_collab_def)

lemma next_run_simps [simp]:
  "fs (next_run w) = fs w" "toolcache (next_run w) = toolcache w"
  "outputs (next_run w) = []" "trace (next_run w) = []"
  by (simp_all add: next_run_def)

lemma is_miss_lookup:
  "is_miss (lookup_value h pf c inst cachedir w) \<longleftrightarrow> \<not> cache_hit h pf c inst cachedir w"
  by (auto simp add: is_miss_def lookup_value_def cache_hit_def split: option.splits)

lemma no_hook_boot:
  "filter is_hook (installQdep_steps c @ lookup_steps inst cachedir) = []"
  by (simp add: installQdep_steps_def lookup_steps_def)

lemma acquire_steps_no_write:
  "\<forall>x \<in> set (installQdep_steps c @ lookup_steps inst cachedir
               @ RunPreInstaller False # acquire_steps h pf c inst packages iArgs).
     \<not> is_cache_write x"
  by (simp add: installQdep_steps_def lookup_steps_def acquire_steps_def Let_def)




lemma getQt_decision_trace:
  assumes "first_failure c (installQdep_steps c @ lookup_steps inst cachedir) = None"
  shows "(cache_hit h pf c inst cachedir w \<longrightarrow>
           (\<exists>rest. trace (snd (getQt h pf c inst packages iArgs cachedir w))
               = trace w @ installQdep_steps c @ lookup_steps inst cachedir
                   @ RunPreInstaller True # rest
             \<and> (\<forall>ev \<in> set rest. \<not> is_hook ev \<and> \<not> is_acquisition ev)))
       \<and> (\<not> cache_hit h pf c inst cachedir w \<longrightarrow>
           (\<exists>rest. trace (snd (getQt h pf c inst packages iArgs cachedir w))
               = trace w @ installQdep_steps c @ lookup_steps inst cachedir
                   @ RunPreInstaller False # rest
             \<and> (\<forall>ev \<in> set rest. \<not> is_hook ev)
             \<and> (fails c (RunPreInstaller False) = None \<longrightarrow>
                  (\<exists>rest'. rest = DownloadTool
                      (''https://download.qt.io/official_releases/online_installers/''
                         @ installerName pf (platform inst)) # rest'))))
       \<and> filter is_hook (drop (length (trace w))
            (trace (snd (getQt h pf c inst packages iArgs cachedir w))))
           = [RunPreInstaller (cache_hit h pf c inst cachedir w)]"
proof -
  let ?t = "trace (snd (getQt h pf c inst packages iArgs cachedir w))"
  let ?b = "installQdep_steps c @ lookup_steps inst cachedir"
  have hit: "cache_hit h pf c inst cachedir w \<longrightarrow>
           (\<exists>rest. ?t = trace w @ installQdep_steps c @ lookup_steps inst cachedir
                   @ RunPreInstaller True # rest
             \<and> (\<forall>ev \<in> set rest. \<not> is_hook ev \<and> \<not> is_acquisition ev))"
    using getQt_hit_trace [OF _ assms, of h pf w packages iArgs] by blast
  have miss: "\<not> cache_hit h pf c inst cachedir w \<longrightarrow>
           (\<exists>rest. ?t = trace w @ installQdep_steps c @ lookup_steps inst cachedir
                   @ RunPreInstaller False # rest
             \<and> (\<forall>ev \<in> set rest. \<not> is_hook ev)
             \<and> (fails c (RunPreInstaller False) = None \<longrightarrow>
                  (\<exists>rest'. rest = DownloadTool
                      (''https://download.qt.io/official_releases/online_installers/''
                         @ installerName pf (platform inst)) # rest')))"
    using getQt_miss_trace [OF _ assms, of h pf w packages iArgs] by blast
  have one: "filter is_hook (drop (length (trace w)) ?t) = [RunPreInstaller (cache_hit h pf c inst cachedir w)]"
  proof (cases "cache_hit h pf c inst cachedir w")
    case True
    with hit obtain rest where t: "?t = trace w @ ?b @ RunPreInstaller True # rest"
      and r: "\<forall>ev \<in> set rest. \<not> is_hook ev" by auto
    from r have "filter is_hook rest = []" by (simp add: filter_empty_conv)
    with t True no_hook_boot [of c inst cachedir] show ?thesis by simp
  next
    case False
    with miss obtain rest where t: "?t = trace w @ ?b @ RunPreInstaller False # rest"
      and r: "\<forall>ev \<in> set rest. \<not> is_hook ev" by auto
    from r have "filter is_hook rest = []" by (simp add: filter_empty_conv)
    with t False no_hook_boot [of c inst cachedir] show ?thesis by simp
  qed
  from hit miss one show ?thesis by blast
qed

text \<open>
  Every call of a run is one of the calls that its blocks can make, and with a shared
  cache directory none of them goes to the local tool cache.
\<close>

lemma getQt_trace_subset:
  "set (drop (length (trace w)) (trace (snd (getQt h pf c inst packages iArgs cachedir w))))
     \<subseteq> set (installQdep_steps c) \<union> set (lookup_steps inst cachedir)
       \<union> {RunPreInstaller True, RunPreInstaller False}
       \<union> set (acquire_plan h pf c inst packages iArgs cachedir)
       \<union> set (publish_steps h pf (toolRoot h c inst cachedir w))
       \<union> set (link_steps h pf inst (toolRoot h c inst cachedir w))"
proof (cases "cache_hit h pf c inst cachedir w")
  case True
  let ?pre = "installQdep_steps c @ lookup_steps inst cachedir @ [RunPreInstaller True]"
  show ?thesis
  proof (cases "first_failure c ?pre")
    case (Some e)
    then have "drop (length (trace w)) (trace (snd (getQt h pf c inst packages iArgs cachedir w)))
        = performed c ?pre"
      by (simp add: getQt_run_hit [OF True])
    then show ?thesis
      using set_performed [of c ?pre] by auto
  next
    case None
    then have "drop (length (trace w)) (trace (snd (getQt h pf c inst packages iArgs cachedir w)))
        = ?pre @ performed c (publish_steps h pf (toolRoot h c inst cachedir w)
                              @ link_steps h pf inst (toolRoot h c inst cachedir w))"
      by (simp add: getQt_run_hit [OF True] publishQt_run)
    then show ?thesis
      using set_performed [of c "publish_steps h pf (toolRoot h c inst cachedir w)
                              @ link_steps h pf inst (toolRoot h c inst cachedir w)"]
      by auto
  qed
next
  case False
  let ?pre = "installQdep_steps c @ lookup_steps inst cachedir @ [RunPreInstaller False]"
  let ?plan = "acquire_plan h pf c inst packages iArgs cachedir"
  let ?pub = "publish_steps h pf (toolRoot h c inst cachedir w)
                @ link_steps h pf inst (toolRoot h c inst cachedir w)"
  show ?thesis
  proof (cases "first_failure c ?pre")
    case (Some e)
    then have "drop (length (trace w)) (trace (snd (getQt h pf c inst packages iArgs cachedir w)))
        = performed c ?pre"
      by (simp add: getQt_run_miss [OF False])
    then show ?thesis
      using set_performed [of c ?pre] by auto
  next
    case None
    note pre = None
    show ?thesis
    proof (cases "first_failure c ?plan")
      case (Some e)
      with pre have "drop (length (trace w)) (trace (snd (getQt h pf c inst packages iArgs cachedir w)))
          = ?pre @ performed c ?plan"
        by (simp add: getQt_run_miss [OF False])
      then show ?thesis
        using set_performed [of c ?plan] by auto
    next
      case None
      with pre have "drop (length (trace w)) (trace (snd (getQt h pf c inst packages iArgs cachedir w)))
          = ?pre @ ?plan @ performed c ?pub"
        by (simp add: getQt_run_miss [OF False] publishQt_run)
      then show ?thesis
        using set_performed [of c ?pub] by auto
    qed
  qed
qed

lemma shared_run_no_toolcache:
  assumes "cachedir \<noteq> []"
  shows "\<forall>ev \<in> set (drop (length (trace w)) (trace (snd (getQt h pf c inst packages iArgs cachedir w)))).
           \<not> is_toolcache_call ev"
proof -
  have "\<forall>ev \<in> set (installQdep_steps c) \<union> set (lookup_steps inst cachedir)
       \<union> {RunPreInstaller True, RunPreInstaller False}
       \<union> set (acquire_plan h pf c inst packages iArgs cachedir)
       \<union> set (publish_steps h pf (toolRoot h c inst cachedir w))
       \<union> set (link_steps h pf inst (toolRoot h c inst cachedir w)). \<not> is_toolcache_call ev"
    using assms
    by (simp add: installQdep_steps_def lookup_steps_def acquire_plan_def acquire_steps_def
          store_step_def publish_steps_def link_steps_def Let_def)
  with getQt_trace_subset [of w h pf c inst packages iArgs cachedir] show ?thesis
    by blast
qed




lemma tc_found_next_run [simp]: "tc_found c inst (next_run w) = tc_found c inst w"
  by (simp add: tc_found_def)



section \<open>The claims about whole runs\<close>




text \<open>
  Claim C2, as stated: without a shared cache directory, when the local tool cache has
  no entry under the key of qt, the version and the platform key, the lookup reports a
  miss. It fails for a version that is not exact: the tool cache resolves 5.15 as a
  range, so with one entry, stored under 5.15.2, and none under 5.15, \<^verbatim>\<open>tc.find\<close> for
  5.15 returns the path of that entry; the lookup is a hit, and the run calls the
  pre-install hook with true.
\<close>

theorem cache_resolution_counterexample:
  "map_of (toolcache (sample_world\<lparr>toolcache :=
              [((''qt'', ''5.15.2'', ''linux-gcc_64''), ''/opt/hostedtoolcache/qt/5.15.2/linux-gcc_64'')]\<rparr>))
       (''qt'', version (sample_installer ''5.15''),
        IPlatform_platform (platform (sample_installer ''5.15''))) = None
   \<and> fst (checkCaches (sample_host ''linux'' Map.empty) sample_impl (sample_collab [])
        (sample_installer ''5.15'') ''''
        (sample_world\<lparr>toolcache :=
           [((''qt'', ''5.15.2'', ''linux-gcc_64''), ''/opt/hostedtoolcache/qt/5.15.2/linux-gcc_64'')]\<rparr>))
       = Inr (Some ''/opt/hostedtoolcache/qt/5.15.2/linux-gcc_64'')
   \<and> \<not> is_miss (Some ''/opt/hostedtoolcache/qt/5.15.2/linux-gcc_64'')
   \<and> filter is_hook
        (trace (snd (getQt (sample_host ''linux'' Map.empty) sample_impl (sample_collab [])
           (sample_installer ''5.15'') '''' '''' ''''
           (sample_world\<lparr>toolcache :=
              [((''qt'', ''5.15.2'', ''linux-gcc_64''), ''/opt/hostedtoolcache/qt/5.15.2/linux-gcc_64'')]\<rparr>))))
       = [RunPreInstaller True]"
proof -
  let ?h = "sample_host ''linux'' Map.empty"
  let ?c = "sample_collab []"
  let ?j = "sample_installer ''5.15''"
  let ?w = "sample_world\<lparr>toolcache :=
              [((''qt'', ''5.15.2'', ''linux-gcc_64''), ''/opt/hostedtoolcache/qt/5.15.2/linux-gcc_64'')]\<rparr>"
  have none: "map_of (toolcache ?w) (''qt'', version ?j, IPlatform_platform (platform ?j)) = None"
    by code_simp
  have found: "tc_found ?c ?j ?w = ''/opt/hostedtoolcache/qt/5.15.2/linux-gcc_64''"
    by code_simp
  have b: "first_failure ?c (installQdep_steps ?c @ lookup_steps ?j '''') = None"
    by (simp add: first_failure_None_iff sample_collab_ok)
  then have "first_failure ?c (lookup_steps ?j '''') = None"
    by (simp add: first_failure_append_None)
  then have res: "fst (checkCaches ?h sample_impl ?c ?j '''' ?w)
      = Inr (Some ''/opt/hostedtoolcache/qt/5.15.2/linux-gcc_64'')"
    by (simp add: checkCaches_run found)
  have nm: "\<not> is_miss (Some ''/opt/hostedtoolcache/qt/5.15.2/linux-gcc_64'')"
    by (simp add: is_miss_def)
  from found have hit: "cache_hit ?h sample_impl ?c ?j '''' ?w"
    by (simp add: cache_hit_def)
  have tr: "trace ?w = []"
    by (simp add: sample_world_def)
  have hook: "filter is_hook (trace (snd (getQt ?h sample_impl ?c ?j '''' '''' '''' ?w)))
      = [RunPreInstaller True]"
    using getQt_decision_trace [OF b, of ?h sample_impl ?w "''''" "''''"] hit
    by (simp add: tr)
  from none res nm hook show ?thesis
    by blast
qed

text \<open>
  Claim C2, amended: when a shared cache directory is supplied and the build tool
  exists at \<open>bin/<qmakeName>\<close> inside it, the cache lookup returns the resolved path of
  the directory and leaves the world as it is: it makes no call at all, so the local
  tool cache is not consulted, and its content does not matter. When no shared cache
  directory is supplied and the local tool cache finds no entry for qt, the version and
  the platform key, that is \<^verbatim>\<open>tc.find\<close> returns the empty string, the lookup (if
  \<^verbatim>\<open>tc.find\<close> itself does not throw) returns the empty string, which is a miss. And a
  whole run of \<^verbatim>\<open>getQt\<close> with a shared cache directory, hit or miss, makes no call to the
  local tool cache, neither to look up nor to store.
\<close>

theorem cache_resolution:
  "(cachedir \<noteq> []
      \<and> fssync_existsSync h (path_join h [cachedir, ''bin'', qmakeName pf (platform inst)]) w
     \<longrightarrow> checkCaches h pf c inst cachedir w = (Inr (Some (path_resolve h cachedir)), w)
        \<and> (\<forall>entries. checkCaches h pf c inst cachedir (w\<lparr>toolcache := entries\<rparr>)
              = (Inr (Some (path_resolve h cachedir)), w\<lparr>toolcache := entries\<rparr>)))
   \<and> (cachedir = []
      \<and> tc_lookup c (toolcache w) ''qt'' (version inst) (IPlatform_platform (platform inst)) = []
      \<and> fails c (TcFind ''qt'' (version inst) (IPlatform_platform (platform inst))) = None
     \<longrightarrow> checkCaches h pf c inst cachedir w
          = (Inr (Some ''''),
             w\<lparr>trace := trace w @ [TcFind ''qt'' (version inst) (IPlatform_platform (platform inst))]\<rparr>)
        \<and> is_miss (Some '''')
        \<and> \<not> cache_hit h pf c inst cachedir w)
   \<and> (cachedir \<noteq> []
     \<longrightarrow> (\<forall>packages iArgs.
            filter is_toolcache_call
              (drop (length (trace w)) (trace (snd (getQt h pf c inst packages iArgs cachedir w))))
            = []))"
proof -
  have lookup: "(cachedir \<noteq> []
      \<and> fssync_existsSync h (path_join h [cachedir, ''bin'', qmakeName pf (platform inst)]) w
     \<longrightarrow> checkCaches h pf c inst cachedir w = (Inr (Some (path_resolve h cachedir)), w)
        \<and> (\<forall>entries. checkCaches h pf c inst cachedir (w\<lparr>toolcache := entries\<rparr>)
              = (Inr (Some (path_resolve h cachedir)), w\<lparr>toolcache := entries\<rparr>)))
   \<and> (cachedir = []
      \<and> tc_lookup c (toolcache w) ''qt'' (version inst) (IPlatform_platform (platform inst)) = []
      \<and> fails c (TcFind ''qt'' (version inst) (IPlatform_platform (platform inst))) = None
     \<longrightarrow> checkCaches h pf c inst cachedir w
          = (Inr (Some ''''),
             w\<lparr>trace := trace w @ [TcFind ''qt'' (version inst) (IPlatform_platform (platform inst))]\<rparr>)
        \<and> is_miss (Some '''')
        \<and> \<not> cache_hit h pf c inst cachedir w)"
    by (simp add: checkCaches_run lookup_steps_def is_miss_def cache_hit_def tc_found_def
          fssync_existsSync_def)
  have run: "cachedir \<noteq> []
     \<longrightarrow> (\<forall>packages iArgs.
            filter is_toolcache_call
              (drop (length (trace w)) (trace (snd (getQt h pf c inst packages iArgs cachedir w))))
            = [])"
    unfolding filter_empty_conv using shared_run_no_toolcache [of cachedir w h pf c inst] by blast
  from lookup run show ?thesis by blast
qed

theorem cache_resolution_witness:
  "''/cache/qt'' \<noteq> []
   \<and> fssync_existsSync (sample_host ''linux'' Map.empty)
        (path_join (sample_host ''linux'' Map.empty)
           [''/cache/qt'', ''bin'', qmakeName sample_impl (platform (sample_installer ''5.15.2''))])
        (sample_world\<lparr>fs := [([''cache'', ''qt'', ''bin'', ''qmake''], File)]\<rparr>)
   \<and> checkCaches (sample_host ''linux'' Map.empty) sample_impl (sample_collab [])
        (sample_installer ''5.15.2'') ''/cache/qt''
        (sample_world\<lparr>fs := [([''cache'', ''qt'', ''bin'', ''qmake''], File)]\<rparr>)
       = (Inr (Some (path_resolve (sample_host ''linux'' Map.empty) ''/cache/qt'')),
          sample_world\<lparr>fs := [([''cache'', ''qt'', ''bin'', ''qmake''], File)]\<rparr>)
   \<and> tc_lookup (sample_collab []) (toolcache sample_world) ''qt''
        (version (sample_installer ''5.15.2''))
        (IPlatform_platform (platform (sample_installer ''5.15.2''))) = []
   \<and> fails (sample_collab [])
        (TcFind ''qt'' (version (sample_installer ''5.15.2''))
           (IPlatform_platform (platform (sample_installer ''5.15.2'')))) = None
   \<and> fst (checkCaches (sample_host ''linux'' Map.empty) sample_impl (sample_collab [])
        (sample_installer ''5.15.2'') '''' sample_world) = Inr (Some '''')
   \<and> filter is_toolcache_call
        (drop (length (trace (sample_world\<lparr>fs := [([''cache'', ''qt'', ''bin'', ''qmake''], File)]\<rparr>)))
           (trace (snd (getQt (sample_host ''linux'' Map.empty) sample_impl (sample_collab [])
              (sample_installer ''5.15.2'') ''qt.tools.ifw'' '''' ''/cache/qt''
              (sample_world\<lparr>fs := [([''cache'', ''qt'', ''bin'', ''qmake''], File)]\<rparr>)))))
       = []"
proof -
  let ?h = "sample_host ''linux'' Map.empty"
  let ?i = "sample_installer ''5.15.2''"
  let ?w = "sample_world\<lparr>fs := [([''cache'', ''qt'', ''bin'', ''qmake''], File)]\<rparr>"
  have n: "''/cache/qt'' \<noteq> []"
    by simp
  have x: "fssync_existsSync ?h (path_join ?h [''/cache/qt'', ''bin'', qmakeName sample_impl (platform ?i)]) ?w"
    by code_simp
  have t1: "checkCaches ?h sample_impl (sample_collab []) ?i ''/cache/qt'' ?w
      = (Inr (Some (path_resolve ?h ''/cache/qt'')), ?w)"
    using cache_resolution [where cachedir = "''/cache/qt''" and h = ?h and pf = sample_impl
        and inst = ?i and w = ?w and c = "sample_collab []"] n x
    by blast
  have t3: "filter is_toolcache_call
        (drop (length (trace ?w))
           (trace (snd (getQt ?h sample_impl (sample_collab []) ?i ''qt.tools.ifw'' '''' ''/cache/qt'' ?w))))
       = []"
    using cache_resolution [where cachedir = "''/cache/qt''" and h = ?h and pf = sample_impl
        and inst = ?i and w = ?w and c = "sample_collab []"] n
    by blast
  have e: "tc_lookup (sample_collab []) (toolcache sample_world) ''qt'' (version ?i)
             (IPlatform_platform (platform ?i)) = []"
    by code_simp
  have f: "fails (sample_collab []) (TcFind ''qt'' (version ?i) (IPlatform_platform (platform ?i))) = None"
    by (simp add: sample_collab_def)
  have t2: "fst (checkCaches ?h sample_impl (sample_collab []) ?i '''' sample_world) = Inr (Some '''')"
    using cache_resolution [where cachedir = "''''" and h = ?h and pf = sample_impl
        and inst = ?i and w = sample_world and c = "sample_collab []"] e f
    by simp
  show ?thesis using n x t1 e f t2 t3 by blast
qed



text \<open>
  Claim C6: when a run that finds no cached installation throws before the cache write,
  that is in the installer or in a step before it (the installation of qdep, the cache
  lookup, the pre-install hook, the download, the creation of the home directory, the
  writing of the script) or in the preparation of qdep after it, the run ends with the
  error of that call: the local tool cache is as before, no call that writes to a cache
  (neither \<^verbatim>\<open>tc.cacheDir\<close> nor the move to the shared cache directory) is made, and
  nothing is published.
\<close>

theorem acquisition_failure:
  assumes miss: "\<not> cache_hit h pf c inst cachedir w"
    and fail: "first_failure c (installQdep_steps c @ lookup_steps inst cachedir
                 @ RunPreInstaller False # acquire_steps h pf c inst packages iArgs) = Some e"
  shows "fst (getQt h pf c inst packages iArgs cachedir w) = Inl e
       \<and> toolcache (snd (getQt h pf c inst packages iArgs cachedir w)) = toolcache w
       \<and> outputs (snd (getQt h pf c inst packages iArgs cachedir w)) = outputs w
       \<and> paths (snd (getQt h pf c inst packages iArgs cachedir w)) = paths w
       \<and> (\<exists>evs. trace (snd (getQt h pf c inst packages iArgs cachedir w)) = trace w @ evs
             \<and> (\<forall>ev \<in> set evs. \<not> is_cache_write ev))"
proof -
  let ?steps = "acquire_steps h pf c inst packages iArgs"
  let ?pre = "installQdep_steps c @ lookup_steps inst cachedir @ [RunPreInstaller False]"
  let ?g = "getQt h pf c inst packages iArgs cachedir w"
  have quiet: "\<forall>ev \<in> set (performed c (?pre @ ?steps)). \<not> is_cache_write ev"
    using acquire_steps_no_write [of c inst cachedir h pf packages iArgs]
      set_performed [of c "?pre @ ?steps"]
    by auto
  from fail have fail': "first_failure c (?pre @ ?steps) = Some e"
    by simp
  have ff: "first_failure c (?pre @ ?steps)
      = (case first_failure c ?pre of None \<Rightarrow> first_failure c ?steps | Some e \<Rightarrow> Some e)"
    by (rule first_failure_append)
  have pf: "performed c (?pre @ ?steps)
      = (case first_failure c ?pre of None \<Rightarrow> ?pre @ performed c ?steps | Some e \<Rightarrow> performed c ?pre)"
    by (rule performed_append)
  have run: "fst ?g = Inl e \<and> toolcache (snd ?g) = toolcache w \<and> outputs (snd ?g) = outputs w
      \<and> paths (snd ?g) = paths w \<and> trace (snd ?g) = trace w @ performed c (?pre @ ?steps)"
  proof (cases "first_failure c ?pre")
    case (Some e')
    with fail' ff have "e' = e"
      by (metis option.inject option.simps(5))
    with Some pf show ?thesis
      by (simp add: getQt_run_miss [OF miss])
  next
    case None
    with fail' ff have st: "first_failure c ?steps = Some e"
      by (metis option.simps(4))
    from None pf have p2: "performed c (?pre @ ?steps) = ?pre @ performed c ?steps"
      by (metis option.simps(4))
    from None st have "fst ?g = Inl e \<and> toolcache (snd ?g) = toolcache w \<and> outputs (snd ?g) = outputs w
      \<and> paths (snd ?g) = paths w \<and> trace (snd ?g) = trace w @ ?pre @ performed c ?steps"
      by (simp add: getQt_run_miss [OF miss] acquire_plan_def first_failure_append
            performed_append)
    then show ?thesis
      by (simp only: p2)
  qed
  with quiet show ?thesis
    by blast
qed

theorem acquisition_failure_witness:
  "\<not> cache_hit (sample_host ''linux'' Map.empty) sample_impl
        (sample_collab [RunInstaller ''/tmp/dl/installer.run''
                          [''--script'', ''/tmp/qt-installer-script.qs'', ''''] ''/tmp/qt''])
        (sample_installer ''5.15.2'') '''' sample_world
   \<and> first_failure
       (sample_collab [RunInstaller ''/tmp/dl/installer.run''
                         [''--script'', ''/tmp/qt-installer-script.qs'', ''''] ''/tmp/qt''])
       (installQdep_steps
          (sample_collab [RunInstaller ''/tmp/dl/installer.run''
                            [''--script'', ''/tmp/qt-installer-script.qs'', ''''] ''/tmp/qt''])
        @ lookup_steps (sample_installer ''5.15.2'') ''''
        @ RunPreInstaller False
          # acquire_steps (sample_host ''linux'' Map.empty) sample_impl
              (sample_collab [RunInstaller ''/tmp/dl/installer.run''
                                [''--script'', ''/tmp/qt-installer-script.qs'', ''''] ''/tmp/qt''])
              (sample_installer ''5.15.2'') '''' '''') = Some (Throw ''failed'')
   \<and> fst (getQt (sample_host ''linux'' Map.empty) sample_impl
            (sample_collab [RunInstaller ''/tmp/dl/installer.run''
                              [''--script'', ''/tmp/qt-installer-script.qs'', ''''] ''/tmp/qt''])
            (sample_installer ''5.15.2'') '''' '''' '''' sample_world) = Inl (Throw ''failed'')
   \<and> toolcache (snd (getQt (sample_host ''linux'' Map.empty) sample_impl
            (sample_collab [RunInstaller ''/tmp/dl/installer.run''
                              [''--script'', ''/tmp/qt-installer-script.qs'', ''''] ''/tmp/qt''])
            (sample_installer ''5.15.2'') '''' '''' '''' sample_world)) = []
   \<and> outputs (snd (getQt (sample_host ''linux'' Map.empty) sample_impl
            (sample_collab [RunInstaller ''/tmp/dl/installer.run''
                              [''--script'', ''/tmp/qt-installer-script.qs'', ''''] ''/tmp/qt''])
            (sample_installer ''5.15.2'') '''' '''' '''' sample_world)) = []"
proof -
  let ?c = "sample_collab [RunInstaller ''/tmp/dl/installer.run''
                            [''--script'', ''/tmp/qt-installer-script.qs'', ''''] ''/tmp/qt'']"
  let ?h = "sample_host ''linux'' Map.empty"
  let ?i = "sample_installer ''5.15.2''"
  have m: "\<not> cache_hit ?h sample_impl ?c ?i '''' sample_world"
    by code_simp
  have f: "first_failure ?c (installQdep_steps ?c @ lookup_steps ?i ''''
             @ RunPreInstaller False # acquire_steps ?h sample_impl ?c ?i '''' '''')
           = Some (Throw ''failed'')"
    by code_simp
  have o: "outputs sample_world = [] \<and> toolcache sample_world = []"
    by (simp add: sample_world_def)
  from acquisition_failure [OF m f] m f o show ?thesis
    by simp
qed

text \<open>
  Claim C8: the published output \<open>tests\<close> is \<open>false\<close> exactly when the platform key
  contains android, wasm, winrt or ios, and \<open>true\<close> otherwise; every run that
  completes publishes it. The key android_arm64 gives false and linux-gcc_64 gives
  true, whatever the platform classes answer for the test flags.
\<close>

theorem tests_output:
  "(String_of_bool (shouldTest inst) = ''false''
      \<longleftrightarrow> (\<exists>n \<in> {''android'', ''wasm'', ''winrt'', ''ios''}.
             \<exists>a b. IPlatform_platform (platform inst) = a @ n @ b))
   \<and> (String_of_bool (shouldTest inst) = ''true''
      \<longleftrightarrow> \<not> (\<exists>n \<in> {''android'', ''wasm'', ''winrt'', ''ios''}.
             \<exists>a b. IPlatform_platform (platform inst) = a @ n @ b))
   \<and> (fst (getQt h pf c inst packages iArgs cachedir w) = Inr ()
      \<longrightarrow> map_of (drop (length (outputs w))
                    (outputs (snd (getQt h pf c inst packages iArgs cachedir w)))) ''tests''
          = Some (String_of_bool (shouldTest inst)))
   \<and> (IPlatform_platform (platform inst) = ''android_arm64''
      \<longrightarrow> String_of_bool (shouldTest inst) = ''false'')
   \<and> (IPlatform_platform (platform inst) = ''linux-gcc_64''
      \<longrightarrow> String_of_bool (shouldTest inst) = ''true'')"
proof -
  have iff: "shouldTest inst \<longleftrightarrow> \<not> (\<exists>n \<in> {''android'', ''wasm'', ''winrt'', ''ios''}.
             \<exists>a b. IPlatform_platform (platform inst) = a @ n @ b)"
    unfolding shouldTest_def Let_def js_includes_iff by auto
  have pub: "fst (getQt h pf c inst packages iArgs cachedir w) = Inr ()
      \<longrightarrow> map_of (drop (length (outputs w))
                    (outputs (snd (getQt h pf c inst packages iArgs cachedir w)))) ''tests''
          = Some (String_of_bool (shouldTest inst))"
    by (simp add: getQt_success_outputs)
  have a: "IPlatform_platform (platform inst) = ''android_arm64'' \<longrightarrow> \<not> shouldTest inst"
    by (simp add: shouldTest_def)
  have l: "IPlatform_platform (platform inst) = ''linux-gcc_64'' \<longrightarrow> shouldTest inst"
    by (simp add: shouldTest_def)
  have f: "String_of_bool (shouldTest inst) = ''false'' \<longleftrightarrow> \<not> shouldTest inst"
    by (simp add: String_of_bool_def)
  have t: "String_of_bool (shouldTest inst) = ''true'' \<longleftrightarrow> shouldTest inst"
    by (simp add: String_of_bool_def)
  from iff pub a l f t show ?thesis
    by blast
qed

theorem tests_output_witness:
  "fst (getQt (sample_host ''linux'' Map.empty) sample_impl (sample_collab [])
          (sample_installer ''5.15.2'') '''' '''' '''' sample_world) = Inr ()
   \<and> IPlatform_platform (platform (sample_installer ''5.15.2'')) = ''linux-gcc_64''
   \<and> map_of (drop (length (outputs sample_world))
        (outputs (snd (getQt (sample_host ''linux'' Map.empty) sample_impl (sample_collab [])
                         (sample_installer ''5.15.2'') '''' '''' '''' sample_world)))) ''tests''
       = Some ''true''
   \<and> IPlatform_platform (platform \<lparr>version = ''5.15.2'', platform = AndroidPlatform ''android_arm64'',
                                    tempDir = ''/tmp''\<rparr>) = ''android_arm64''
   \<and> String_of_bool (shouldTest \<lparr>version = ''5.15.2'', platform = AndroidPlatform ''android_arm64'',
                                  tempDir = ''/tmp''\<rparr>) = ''false''"
proof -
  let ?h = "sample_host ''linux'' Map.empty"
  let ?i = "sample_installer ''5.15.2''"
  let ?a = "\<lparr>version = ''5.15.2'', platform = AndroidPlatform ''android_arm64'', tempDir = ''/tmp''\<rparr>"
  have r: "fst (getQt ?h sample_impl (sample_collab []) ?i '''' '''' '''' sample_world) = Inr ()"
    by (rule getQt_no_failure) (rule sample_collab_ok)
  have k: "IPlatform_platform (platform ?i) = ''linux-gcc_64''"
    by (simp add: sample_installer_def)
  have ka: "IPlatform_platform (platform ?a) = ''android_arm64''"
    by simp
  from tests_output [of ?i ?h sample_impl "sample_collab []" "''''" "''''" "''''" sample_world] r k
  have t: "map_of (drop (length (outputs sample_world))
        (outputs (snd (getQt ?h sample_impl (sample_collab []) ?i '''' '''' '''' sample_world)))) ''tests''
       = Some ''true''"
    by simp
  from tests_output [of ?a] ka
  have f: "String_of_bool (shouldTest ?a) = ''false''"
    by blast
  from r k t ka f show ?thesis
    by blast
qed

end
